theory Spec2Isabelle
  imports
    Complex_Main
    "HOL-Library.Multiset"
    "HOL-Library.Char_ord"
    "HOL-Library.List_Lexorder"
begin

section \<open>Numbers\<close>

text \<open>
  The monitor computes with Python floats, which are IEEE-754 binary64 numbers. A finite
  double is modelled as the rational number it denotes, and every arithmetic operation
  of the code as the exact operation followed by rounding to the nearest double, a tie
  going to the even significand. The exponent range is not bounded: overflow to an
  infinity, subnormal numbers and NaN are outside the model, and a number read from a
  series file is taken as the double it denotes. The two infinities
  \<^verbatim>\<open>float("inf")\<close> and \<^verbatim>\<open>float("-inf")\<close>, which the code uses as the neutral
  elements of running minima and maxima, are values of their own.
\<close>

text \<open>The number of binary digits of a positive integer.\<close>

function bit_length :: "int \<Rightarrow> int" where
  "bit_length k = (if k \<le> 0 then 0 else 1 + bit_length (k div 2))"
  by pat_completeness auto
termination
  by (relation "measure nat") auto

declare bit_length.simps [simp del]

definition pow2 :: "int \<Rightarrow> rat" where
  "pow2 k = (if 0 \<le> k then 2 ^ nat k else 1 / 2 ^ nat (- k))"

text \<open>
  For a positive rational \<open>x\<close>, the integer \<open>e\<close> with \<open>2\<^sup>e \<le> x < 2\<^sup>e\<^sup>+\<^sup>1\<close>. From 1
  upwards it is read off the integer part of \<open>x\<close>; below 1 the integer part of
  \<open>1 / x\<close> has \<open>k + 1\<close> binary digits, so \<open>2\<^sup>-\<^sup>k\<^sup>-\<^sup>1 < x \<le> 2\<^sup>-\<^sup>k\<close>.
\<close>

definition floor_log2 :: "rat \<Rightarrow> int" where
  "floor_log2 x =
     (if 1 \<le> x then bit_length \<lfloor>x\<rfloor> - 1
      else let k = bit_length \<lfloor>1 / x\<rfloor> - 1
           in if x = pow2 (- k) then - k else - k - 1)"

definition round_half_even :: "rat \<Rightarrow> int" where
  "round_half_even x =
     (let f = \<lfloor>x\<rfloor>; d = x - of_int f
      in if d < 1 / 2 then f
         else if 1 / 2 < d then f + 1
         else if even f then f else f + 1)"

text \<open>
  Rounding to the nearest double: a significand of 53 binary digits, so the spacing of
  the doubles around \<open>x\<close> is \<open>2\<^sup>e\<^sup>-\<^sup>5\<^sup>2\<close>.
\<close>

definition rnd :: "rat \<Rightarrow> rat" where
  "rnd x =
     (if x = 0 then 0
      else let ulp = pow2 (floor_log2 \<bar>x\<bar> - 52)
           in of_int (round_half_even (x / ulp)) * ulp)"

text \<open>
  The float operations \<^verbatim>\<open>+\<close>, \<^verbatim>\<open>*\<close> and \<^verbatim>\<open>/\<close>, the conversion of a Python
  \<^verbatim>\<open>int\<close> that meets a float in an operation, and the builtin \<^verbatim>\<open>sum\<close>, which
  adds from the left starting at 0 (CPython before 3.12).
\<close>

definition fadd :: "rat \<Rightarrow> rat \<Rightarrow> rat" where
  "fadd a b = rnd (a + b)"

definition fmul :: "rat \<Rightarrow> rat \<Rightarrow> rat" where
  "fmul a b = rnd (a * b)"

definition fdiv :: "rat \<Rightarrow> rat \<Rightarrow> rat" where
  "fdiv a b = rnd (a / b)"

definition float_of_nat :: "nat \<Rightarrow> rat" where
  "float_of_nat n = rnd (of_nat n)"

definition py_sum :: "rat list \<Rightarrow> rat" where
  "py_sum xs = foldl fadd 0 xs"

datatype pyfloat = NegInf | Fin rat | PosInf

instantiation pyfloat :: linorder
begin

fun less_eq_pyfloat :: "pyfloat \<Rightarrow> pyfloat \<Rightarrow> bool" where
  "less_eq_pyfloat NegInf y = True"
| "less_eq_pyfloat (Fin a) NegInf = False"
| "less_eq_pyfloat (Fin a) (Fin b) = (a \<le> b)"
| "less_eq_pyfloat (Fin a) PosInf = True"
| "less_eq_pyfloat PosInf NegInf = False"
| "less_eq_pyfloat PosInf (Fin b) = False"
| "less_eq_pyfloat PosInf PosInf = True"

definition less_pyfloat :: "pyfloat \<Rightarrow> pyfloat \<Rightarrow> bool" where
  "less_pyfloat x y = (x \<le> y \<and> \<not> y \<le> x)"

instance
proof
  fix x y z :: pyfloat
  show "(x < y) = (x \<le> y \<and> \<not> y \<le> x)"
    by (simp add: less_pyfloat_def)
  show "x \<le> x"
    by (cases x) simp_all
  show "x \<le> y \<Longrightarrow> y \<le> z \<Longrightarrow> x \<le> z"
    by (cases x; cases y; cases z) simp_all
  show "x \<le> y \<Longrightarrow> y \<le> x \<Longrightarrow> x = y"
    by (cases x; cases y) simp_all
  show "x \<le> y \<or> y \<le> x"
    by (cases x; cases y) auto
qed

end

text \<open>
  Python's \<^verbatim>\<open>round(x, 2)\<close> on a float: the exact value of \<open>x\<close> is rounded to the
  nearest multiple of 1/100, a tie going to the even multiple, and the result is the
  double nearest to that decimal; an infinity is returned as it is.
\<close>

definition round2 :: "rat \<Rightarrow> rat" where
  "round2 x = rnd (of_int (round_half_even (x * 100)) / 100)"

fun round2x :: "pyfloat \<Rightarrow> pyfloat" where
  "round2x (Fin a) = Fin (round2 a)"
| "round2x NegInf = NegInf"
| "round2x PosInf = PosInf"

section \<open>Exceptions\<close>

text \<open>
  Every exception the modelled code can raise. \<open>ClientException\<close> carries its message:
  \<^verbatim>\<open>"No Data"\<close> and \<^verbatim>\<open>"Invalid Timezone: <name>"\<close> are the two the query layer
  raises.
\<close>

datatype error =
    IndexError
  | ZeroDivisionError
  | ValueError
  | FileNotFoundError
  | JSONDecodeError
  | ClientException string

text \<open>
  A method that mutates its object can raise after part of the mutation is done, so the
  outcome of a call carries the state in both cases.
\<close>

datatype 's outcome = Returned 's | Raised error 's

fun state_of :: "'s outcome \<Rightarrow> 's" where
  "state_of (Returned s) = s"
| "state_of (Raised e s) = s"

fun raised :: "'s outcome \<Rightarrow> error option" where
  "raised (Returned s) = None"
| "raised (Raised e s) = Some e"

section \<open>The accumulator (class Monitor)\<close>

text \<open>The fields of \<^verbatim>\<open>current_stats\<close> that \<^verbatim>\<open>update_current_stats\<close> reads.\<close>

record snapshot =
  snap_cpu :: "rat list"
  snap_ram_used :: rat
  snap_disk_used :: rat
  snap_disk_total :: rat
  snap_transfer_total :: rat

record monitor =
  cpu_per_core_avg :: "rat list"
  cpu_total_avg :: rat
  ram_avg :: rat
  ram_min :: pyfloat
  ram_max :: rat
  bandwidth_total :: rat
  disk_used :: rat
  disk_total :: rat
  sample_count :: nat

text \<open>\<^verbatim>\<open>Monitor.__init__\<close>, and the state \<^verbatim>\<open>get_and_reset_stats\<close> resets to.\<close>

definition init_monitor :: monitor where
  "init_monitor =
     \<lparr> cpu_per_core_avg = [], cpu_total_avg = 0, ram_avg = 0, ram_min = PosInf,
       ram_max = 0, bandwidth_total = 0, disk_used = 0, disk_total = 0,
       sample_count = 0 \<rparr>"

text \<open>
  The list comprehension of \<^verbatim>\<open>update_current_stats\<close>: it runs over the indices of
  \<^verbatim>\<open>cpu\<close> and reads \<^verbatim>\<open>self.cpu_per_core_avg[i]\<close>, which raises IndexError when
  \<^verbatim>\<open>cpu\<close> is the longer list.
\<close>

definition incremental_avg :: "rat list \<Rightarrow> nat \<Rightarrow> rat list \<Rightarrow> error + rat list" where
  "incremental_avg avgs n cpu =
     (if length cpu \<le> length avgs
      then Inr (map (\<lambda>i. fdiv (fadd (fmul (avgs ! i) (float_of_nat n)) (cpu ! i))
                             (float_of_nat (n + 1))) [0..<length cpu])
      else Inl IndexError)"

text \<open>
  \<^verbatim>\<open>update_current_stats\<close>. The test \<^verbatim>\<open>if not self.ram_avg\<close> is true when the
  running average is zero, whatever the sample count. The division by
  \<^verbatim>\<open>total_core\<close> raises after \<^verbatim>\<open>self.cpu_per_core_avg\<close> has been assigned.
\<close>

definition update_current_stats :: "monitor \<Rightarrow> snapshot \<Rightarrow> monitor outcome" where
  "update_current_stats self current_stats =
     (let cpu = snap_cpu current_stats;
          ram_used = snap_ram_used current_stats;
          n = sample_count self
      in case (if cpu_per_core_avg self = [] then Inr cpu
               else incremental_avg (cpu_per_core_avg self) n cpu) of
           Inl e \<Rightarrow> Raised e self
         | Inr cores \<Rightarrow>
             let self1 = self\<lparr>cpu_per_core_avg := cores\<rparr>;
                 total_core = length cores
             in if total_core = 0 then Raised ZeroDivisionError self1
                else Returned (self1\<lparr>
                  cpu_total_avg := fdiv (py_sum cores) (float_of_nat total_core),
                  ram_avg := (if ram_avg self = 0 then ram_used
                              else fdiv (fadd (fmul (ram_avg self) (float_of_nat n)) ram_used)
                                        (float_of_nat (n + 1))),
                  ram_min := min (ram_min self) (Fin ram_used),
                  ram_max := max (ram_max self) ram_used,
                  bandwidth_total := fadd (bandwidth_total self) (snap_transfer_total current_stats),
                  disk_used := snap_disk_used current_stats,
                  disk_total := snap_disk_total current_stats,
                  sample_count := n + 1\<rparr>))"

text \<open>Feeding a sequence of snapshots, one call each; the first exception ends the run.\<close>

fun feed :: "monitor \<Rightarrow> snapshot list \<Rightarrow> monitor outcome" where
  "feed self [] = Returned self"
| "feed self (s # ss) =
     (case update_current_stats self s of
        Returned self' \<Rightarrow> feed self' ss
      | Raised e self' \<Rightarrow> Raised e self')"

section \<open>Timestamps\<close>

text \<open>
  The \<^verbatim>\<open>"datetime"\<close> of a record is a string: the \<^verbatim>\<open>isoformat()\<close> of a UTC
  instant in the hourly series, \<^verbatim>\<open>YYYY-MM-DD\<close> in the daily series and
  \<^verbatim>\<open>YYYY-MM\<close> in the monthly series. The code reads it back with
  \<^verbatim>\<open>datetime.fromisoformat\<close>. The model of that library function is narrower than
  the library: it reads the strings \<^verbatim>\<open>isoformat()\<close> writes
  (\<^verbatim>\<open>YYYY-MM-DDTHH:MM:SS\<close>, then an optional \<^verbatim>\<open>.ffffff\<close>, then an optional
  \<^verbatim>\<open>+HH:MM\<close> or \<^verbatim>\<open>-HH:MM\<close>) and a date alone (\<^verbatim>\<open>YYYY-MM-DD\<close>), with the
  fields the library gives them, and answers ValueError to every other string, also
  to forms that newer versions of the library read (a space for the \<^verbatim>\<open>T\<close>, a
  \<^verbatim>\<open>Z\<close> for the offset). A month alone (\<^verbatim>\<open>YYYY-MM\<close>) is refused by the library
  as well.
\<close>

record datetime =
  dt_year :: nat
  dt_month :: nat
  dt_day :: nat
  dt_hour :: nat
  dt_minute :: nat
  dt_second :: nat
  dt_microsecond :: nat
  dt_utcoffset :: "int option"

definition digit_of :: "char \<Rightarrow> nat option" where
  "digit_of c =
     (if CHR ''0'' \<le> c \<and> c \<le> CHR ''9'' then Some (of_char c - 48) else None)"

fun nat_of_digits :: "nat \<Rightarrow> string \<Rightarrow> nat option" where
  "nat_of_digits acc [] = Some acc"
| "nat_of_digits acc (c # cs) =
     (case digit_of c of
        None \<Rightarrow> None
      | Some d \<Rightarrow> nat_of_digits (10 * acc + d) cs)"

definition is_leap :: "nat \<Rightarrow> bool" where
  "is_leap y = (y mod 4 = 0 \<and> (y mod 100 \<noteq> 0 \<or> y mod 400 = 0))"

definition days_in_month :: "nat \<Rightarrow> nat \<Rightarrow> nat" where
  "days_in_month y m =
     (if m = 2 then (if is_leap y then 29 else 28)
      else if m = 4 \<or> m = 6 \<or> m = 9 \<or> m = 11 then 30 else 31)"

definition parse_date :: "string \<Rightarrow> (nat \<times> nat \<times> nat) option" where
  "parse_date s =
     (if length s = 10 \<and> s ! 4 = CHR ''-'' \<and> s ! 7 = CHR ''-''
      then (case (nat_of_digits 0 (take 4 s), nat_of_digits 0 (take 2 (drop 5 s)),
                  nat_of_digits 0 (drop 8 s)) of
              (Some y, Some m, Some d) \<Rightarrow>
                if 1 \<le> y \<and> 1 \<le> m \<and> m \<le> 12 \<and> 1 \<le> d \<and> d \<le> days_in_month y m
                then Some (y, m, d) else None
            | _ \<Rightarrow> None)
      else None)"

definition parse_hms :: "string \<Rightarrow> (nat \<times> nat \<times> nat) option" where
  "parse_hms s =
     (if length s = 8 \<and> s ! 2 = CHR '':'' \<and> s ! 5 = CHR '':''
      then (case (nat_of_digits 0 (take 2 s), nat_of_digits 0 (take 2 (drop 3 s)),
                  nat_of_digits 0 (drop 6 s)) of
              (Some h, Some m, Some sec) \<Rightarrow>
                if h < 24 \<and> m < 60 \<and> sec < 60 then Some (h, m, sec) else None
            | _ \<Rightarrow> None)
      else None)"

text \<open>The offset, in minutes: absent, or a sign and \<^verbatim>\<open>HH:MM\<close>.\<close>

definition parse_offset :: "string \<Rightarrow> int option option" where
  "parse_offset s =
     (if s = [] then Some None
      else if length s = 6 \<and> (s ! 0 = CHR ''+'' \<or> s ! 0 = CHR ''-'') \<and> s ! 3 = CHR '':''
      then (case (nat_of_digits 0 (take 2 (drop 1 s)), nat_of_digits 0 (drop 4 s)) of
              (Some h, Some m) \<Rightarrow>
                if h < 24 \<and> m < 60
                then Some (Some ((if s ! 0 = CHR ''-'' then - 1 else 1) * int (60 * h + m)))
                else None
            | _ \<Rightarrow> None)
      else None)"

definition parse_time :: "string \<Rightarrow> ((nat \<times> nat \<times> nat) \<times> nat \<times> int option) option" where
  "parse_time t =
     (case parse_hms (take 8 t) of
        None \<Rightarrow> None
      | Some hms \<Rightarrow>
          let rest = drop 8 t
          in if rest \<noteq> [] \<and> hd rest = CHR ''.''
             then (if length rest < 7 then None
                   else case (nat_of_digits 0 (take 6 (drop 1 rest)), parse_offset (drop 7 rest)) of
                          (Some us, Some off) \<Rightarrow> Some (hms, us, off)
                        | _ \<Rightarrow> None)
             else (case parse_offset rest of
                     Some off \<Rightarrow> Some (hms, 0, off)
                   | None \<Rightarrow> None))"

definition fromisoformat :: "string \<Rightarrow> error + datetime" where
  "fromisoformat s =
     (case parse_date (take 10 s) of
        None \<Rightarrow> Inl ValueError
      | Some (y, m, d) \<Rightarrow>
          if length s = 10
          then Inr \<lparr> dt_year = y, dt_month = m, dt_day = d, dt_hour = 0, dt_minute = 0,
                     dt_second = 0, dt_microsecond = 0, dt_utcoffset = None \<rparr>
          else if s ! 10 = CHR ''T''
          then (case parse_time (drop 11 s) of
                  None \<Rightarrow> Inl ValueError
                | Some ((h, mi, sec), us, off) \<Rightarrow>
                    Inr \<lparr> dt_year = y, dt_month = m, dt_day = d, dt_hour = h, dt_minute = mi,
                          dt_second = sec, dt_microsecond = us, dt_utcoffset = off \<rparr>)
          else Inl ValueError)"

text \<open>\<^verbatim>\<open>dt.date()\<close>: the calendar date as written, no zone conversion.\<close>

definition date_of :: "datetime \<Rightarrow> nat \<times> nat \<times> nat" where
  "date_of dt = (dt_year dt, dt_month dt, dt_day dt)"

definition digit_char :: "nat \<Rightarrow> char" where
  "digit_char n = char_of (48 + n mod 10)"

definition pad2 :: "nat \<Rightarrow> string" where
  "pad2 n = [digit_char (n div 10), digit_char n]"

definition pad4 :: "nat \<Rightarrow> string" where
  "pad4 n = [digit_char (n div 1000), digit_char (n div 100), digit_char (n div 10), digit_char n]"

text \<open>
  The three \<^verbatim>\<open>strftime\<close> formats of the code: \<^verbatim>\<open>'%Y-%m-%d'\<close>, \<^verbatim>\<open>'%Y-%m'\<close>
  and \<^verbatim>\<open>'%m-%d %Hh'\<close> (years of four digits).
\<close>

definition strftime_Ymd :: "datetime \<Rightarrow> string" where
  "strftime_Ymd dt = pad4 (dt_year dt) @ ''-'' @ pad2 (dt_month dt) @ ''-'' @ pad2 (dt_day dt)"

definition strftime_Ym :: "datetime \<Rightarrow> string" where
  "strftime_Ym dt = pad4 (dt_year dt) @ ''-'' @ pad2 (dt_month dt)"

definition strftime_md_Hh :: "datetime \<Rightarrow> string" where
  "strftime_md_Hh dt = pad2 (dt_month dt) @ ''-'' @ pad2 (dt_day dt) @ '' '' @ pad2 (dt_hour dt) @ ''h''"

section \<open>Aggregate records and the merge\<close>

text \<open>
  One element of a series file. The constant \<^verbatim>\<open>"unit"\<close> entries are left out. The
  running minimum and maximum start from infinities in the code, so these two fields
  are extended numbers.
\<close>

record aggregate =
  rec_datetime :: string
  rec_cpu_per_core_avg :: "rat list"
  rec_cpu_total_avg :: rat
  rec_ram_avg_used :: rat
  rec_ram_min_used :: pyfloat
  rec_ram_max_used :: pyfloat
  rec_ram_total :: rat
  rec_disk_used :: rat
  rec_disk_total :: rat
  rec_transfer_total :: rat

text \<open>The local variables of \<^verbatim>\<open>_merge_monitor_records\<close> that its loop updates.\<close>

record merge_vars =
  cpu_per_core_sum :: "rat list"
  cpu_total_sum :: rat
  ram_avg_sum :: rat
  ram_min_acc :: pyfloat
  ram_max_acc :: pyfloat
  bandwidth_sum :: rat
  disk_used_max :: rat

text \<open>
  The inner loop \<^verbatim>\<open>for i, val in enumerate(...): cpu_per_core_sum[i] += val\<close>: it walks
  both lists from index 0 and raises IndexError when the record has more cores than the
  sum list has entries.
\<close>

fun add_per_core :: "rat list \<Rightarrow> rat list \<Rightarrow> error + rat list" where
  "add_per_core acc [] = Inr acc"
| "add_per_core [] (v # vs) = Inl IndexError"
| "add_per_core (a # acc) (v # vs) =
     (case add_per_core acc vs of
        Inl e \<Rightarrow> Inl e
      | Inr r \<Rightarrow> Inr (fadd a v # r))"

definition merge_step :: "merge_vars \<Rightarrow> aggregate \<Rightarrow> error + merge_vars" where
  "merge_step s r =
     (case add_per_core (cpu_per_core_sum s) (rec_cpu_per_core_avg r) of
        Inl e \<Rightarrow> Inl e
      | Inr cores \<Rightarrow>
          Inr \<lparr> cpu_per_core_sum = cores,
                cpu_total_sum = fadd (cpu_total_sum s) (rec_cpu_total_avg r),
                ram_avg_sum = fadd (ram_avg_sum s) (rec_ram_avg_used r),
                ram_min_acc = min (ram_min_acc s) (rec_ram_min_used r),
                ram_max_acc = max (ram_max_acc s) (rec_ram_max_used r),
                bandwidth_sum = fadd (bandwidth_sum s) (rec_transfer_total r),
                disk_used_max = max (disk_used_max s) (rec_disk_used r) \<rparr>)"

fun merge_loop :: "merge_vars \<Rightarrow> aggregate list \<Rightarrow> error + merge_vars" where
  "merge_loop s [] = Inr s"
| "merge_loop s (r # rs) =
     (case merge_step s r of
        Inl e \<Rightarrow> Inl e
      | Inr s' \<Rightarrow> merge_loop s' rs)"

text \<open>
  \<^verbatim>\<open>_merge_monitor_records\<close> (the leading underscore is dropped).
  \<^verbatim>\<open>records[0]\<close> raises IndexError on an empty list.
\<close>

definition merge_monitor_records :: "aggregate list \<Rightarrow> string \<Rightarrow> error + aggregate" where
  "merge_monitor_records records merged_dt =
     (case records of
        [] \<Rightarrow> Inl IndexError
      | r0 # _ \<Rightarrow>
          (case merge_loop
                  \<lparr> cpu_per_core_sum = replicate (length (rec_cpu_per_core_avg r0)) 0,
                    cpu_total_sum = 0, ram_avg_sum = 0, ram_min_acc = PosInf,
                    ram_max_acc = NegInf, bandwidth_sum = 0, disk_used_max = 0 \<rparr>
                  records of
             Inl e \<Rightarrow> Inl e
           | Inr s \<Rightarrow>
               let n = float_of_nat (length records)
               in Inr \<lparr> rec_datetime = merged_dt,
                        rec_cpu_per_core_avg = map (\<lambda>avg_core. round2 (fdiv avg_core n)) (cpu_per_core_sum s),
                        rec_cpu_total_avg = round2 (fdiv (cpu_total_sum s) n),
                        rec_ram_avg_used = round2 (fdiv (ram_avg_sum s) n),
                        rec_ram_min_used = round2x (ram_min_acc s),
                        rec_ram_max_used = round2x (ram_max_acc s),
                        rec_ram_total = rec_ram_total r0,
                        rec_disk_used = round2 (disk_used_max s),
                        rec_disk_total = rec_disk_total r0,
                        rec_transfer_total = round2 (bandwidth_sum s) \<rparr>))"

section \<open>The environment, the configuration and the series files\<close>

text \<open>
  What the code reads from outside: the string \<^verbatim>\<open>datetime.now(utc).isoformat()\<close>, the
  total RAM in GB that \<^verbatim>\<open>psutil\<close> reports, and \<^verbatim>\<open>pytz.timezone\<close>, which resolves
  a zone name or raises UnknownTimeZoneError (\<open>None\<close>). A resolved zone is the function
  \<^verbatim>\<open>dt.astimezone(zone)\<close>.
\<close>

record env =
  now_iso :: string
  vm_total :: rat
  pytz_timezone :: "string \<Rightarrow> (datetime \<Rightarrow> datetime) option"

text \<open>The constants of \<^verbatim>\<open>config.py\<close>.\<close>

definition max1h_record_length :: int where
  "max1h_record_length = 168"

definition max1d_record_length :: int where
  "max1d_record_length = 30"

definition max1month_record_length :: int where
  "max1month_record_length = 12"

text \<open>
  A series file is absent, holds something \<^verbatim>\<open>json.load\<close> fails on, or holds a JSON
  array of records.
\<close>

datatype series_file = Missing | Corrupt | Content "aggregate list"

record files =
  file_1h :: series_file
  file_1day :: series_file
  file_1month :: series_file

text \<open>\<^verbatim>\<open>try: json.load(...) except: []\<close>.\<close>

fun load_or_empty :: "series_file \<Rightarrow> aggregate list" where
  "load_or_empty (Content xs) = xs"
| "load_or_empty Missing = []"
| "load_or_empty Corrupt = []"

text \<open>Python's slices \<^verbatim>\<open>xs[:k]\<close> and \<^verbatim>\<open>xs[k:]\<close> for any integer \<open>k\<close>.\<close>

definition slice_to :: "int \<Rightarrow> 'a list \<Rightarrow> 'a list" where
  "slice_to k xs = (if 0 \<le> k then take (nat k) xs else take (nat (int (length xs) + k)) xs)"

definition slice_from :: "int \<Rightarrow> 'a list \<Rightarrow> 'a list" where
  "slice_from k xs = (if 0 \<le> k then drop (nat k) xs else drop (nat (int (length xs) + k)) xs)"

section \<open>Flushing the accumulator\<close>

definition get_and_reset_stats :: "env \<Rightarrow> monitor \<Rightarrow> aggregate option \<times> monitor" where
  "get_and_reset_stats e self =
     (if sample_count self = 0 then (None, self)
      else (Some \<lparr> rec_datetime = now_iso e,
                   rec_cpu_per_core_avg = map round2 (cpu_per_core_avg self),
                   rec_cpu_total_avg = round2 (cpu_total_avg self),
                   rec_ram_avg_used = round2 (ram_avg self),
                   rec_ram_min_used = round2x (ram_min self),
                   rec_ram_max_used = Fin (round2 (ram_max self)),
                   rec_ram_total = round2 (vm_total e),
                   rec_disk_used = round2 (disk_used self),
                   rec_disk_total = round2 (disk_total self),
                   rec_transfer_total = round2 (bandwidth_total self) \<rparr>,
            init_monitor))"

section \<open>The rollups\<close>

text \<open>
  The grouping dictionaries keep insertion order, so they are association lists.
  \<^verbatim>\<open>d.setdefault(key, []).append(r)\<close>:
\<close>

fun setdefault_append :: "string \<Rightarrow> aggregate \<Rightarrow> (string \<times> aggregate list) list
    \<Rightarrow> (string \<times> aggregate list) list" where
  "setdefault_append key r [] = [(key, [r])]"
| "setdefault_append key r ((k, rs) # d) =
     (if k = key then (k, rs @ [r]) # d else (k, rs) # setdefault_append key r d)"

text \<open>The first grouping loop of each rollup; \<open>fmt\<close> is the \<^verbatim>\<open>strftime\<close> of the key.\<close>

fun group_by_parsed :: "(datetime \<Rightarrow> string) \<Rightarrow> (string \<times> aggregate list) list
    \<Rightarrow> aggregate list \<Rightarrow> error + (string \<times> aggregate list) list" where
  "group_by_parsed fmt d [] = Inr d"
| "group_by_parsed fmt d (r # rs) =
     (case fromisoformat (rec_datetime r) of
        Inl e \<Rightarrow> Inl e
      | Inr dt \<Rightarrow> group_by_parsed fmt (setdefault_append (fmt dt) r d) rs)"

text \<open>The second grouping loop: the records of the coarser file, under their own key.\<close>

fun group_by_own_key :: "(string \<times> aggregate list) list \<Rightarrow> aggregate list
    \<Rightarrow> (string \<times> aggregate list) list" where
  "group_by_own_key d [] = d"
| "group_by_own_key d (r # rs) = group_by_own_key (setdefault_append (rec_datetime r) r d) rs"

text \<open>
  The merging loops. The daily one keys a merged record with
  \<^verbatim>\<open>recs[0]["datetime"][:10]\<close>, the monthly one with
  \<^verbatim>\<open>fromisoformat(recs[0]["datetime"]).strftime('%Y-%m')\<close>.
\<close>

fun merge_daily_groups :: "(string \<times> aggregate list) list \<Rightarrow> error + aggregate list" where
  "merge_daily_groups [] = Inr []"
| "merge_daily_groups ((k, recs) # d) =
     (case recs of
        [] \<Rightarrow> Inl IndexError
      | r0 # _ \<Rightarrow>
          (case merge_monitor_records recs (take 10 (rec_datetime r0)) of
             Inl e \<Rightarrow> Inl e
           | Inr merged \<Rightarrow>
               (case merge_daily_groups d of
                  Inl e \<Rightarrow> Inl e
                | Inr ms \<Rightarrow> Inr (merged # ms))))"

fun merge_monthly_groups :: "(string \<times> aggregate list) list \<Rightarrow> error + aggregate list" where
  "merge_monthly_groups [] = Inr []"
| "merge_monthly_groups ((k, recs) # d) =
     (case recs of
        [] \<Rightarrow> Inl IndexError
      | r0 # _ \<Rightarrow>
          (case fromisoformat (rec_datetime r0) of
             Inl e \<Rightarrow> Inl e
           | Inr dt \<Rightarrow>
               (case merge_monitor_records recs (strftime_Ym dt) of
                  Inl e \<Rightarrow> Inl e
                | Inr merged \<Rightarrow>
                    (case merge_monthly_groups d of
                       Inl e \<Rightarrow> Inl e
                     | Inr ms \<Rightarrow> Inr (merged # ms)))))"

text \<open>
  \<^verbatim>\<open>_push_to_file_1day\<close>. \<^verbatim>\<open>sorted\<close> is stable and compares the keys as strings,
  as \<open>sort_key\<close> does.
\<close>

definition push_to_file_1day :: "files \<Rightarrow> files outcome" where
  "push_to_file_1day fs =
     (case file_1h fs of
        Missing \<Rightarrow> Returned fs
      | Corrupt \<Rightarrow> Returned fs
      | Content data_1h \<Rightarrow>
          if data_1h = [] then Returned fs
          else
            (case group_by_parsed strftime_Ymd [] data_1h of
               Inl e \<Rightarrow> Raised e fs
             | Inr d \<Rightarrow>
                 (case merge_daily_groups (group_by_own_key d (load_or_empty (file_1day fs))) of
                    Inl e \<Rightarrow> Raised e fs
                  | Inr daily_records \<Rightarrow>
                      Returned (fs\<lparr>file_1day :=
                        Content (slice_from (- max1d_record_length)
                                   (sort_key rec_datetime daily_records))\<rparr>))))"

definition push_to_file_1month :: "files \<Rightarrow> files outcome" where
  "push_to_file_1month fs =
     (case file_1day fs of
        Missing \<Rightarrow> Returned fs
      | Corrupt \<Rightarrow> Returned fs
      | Content data_1day_list \<Rightarrow>
          if data_1day_list = [] then Returned fs
          else
            (case group_by_parsed strftime_Ym [] data_1day_list of
               Inl e \<Rightarrow> Raised e fs
             | Inr d \<Rightarrow>
                 (case merge_monthly_groups (group_by_own_key d (load_or_empty (file_1month fs))) of
                    Inl e \<Rightarrow> Raised e fs
                  | Inr monthly_records \<Rightarrow>
                      Returned (fs\<lparr>file_1month :=
                        Content (slice_from (- max1month_record_length)
                                   (sort_key rec_datetime monthly_records))\<rparr>))))"

section \<open>The hourly flush\<close>

text \<open>
  The middle of \<^verbatim>\<open>push_to_file\<close>: the new record is merged into the last record of
  the series when both carry the same hour and the same date, and appended otherwise.
\<close>

definition hourly_update :: "aggregate list \<Rightarrow> aggregate \<Rightarrow> error + aggregate list" where
  "hourly_update current_1h_file_data current_stats_data =
     (if current_1h_file_data \<noteq> []
      then
        (case fromisoformat (rec_datetime (last current_1h_file_data)) of
           Inl e \<Rightarrow> Inl e
         | Inr last_dt \<Rightarrow>
             (case fromisoformat (rec_datetime current_stats_data) of
                Inl e \<Rightarrow> Inl e
              | Inr new_dt \<Rightarrow>
                  if dt_hour last_dt = dt_hour new_dt \<and> date_of last_dt = date_of new_dt
                  then
                    (case merge_monitor_records [last current_1h_file_data, current_stats_data]
                            (rec_datetime (last current_1h_file_data)) of
                       Inl e \<Rightarrow> Inl e
                     | Inr merged \<Rightarrow> Inr (butlast current_1h_file_data @ [merged]))
                  else Inr (current_1h_file_data @ [current_stats_data])))
      else Inr (current_1h_file_data @ [current_stats_data]))"

text \<open>The list that is written: the first \<^verbatim>\<open>max1h_record_length\<close> records.\<close>

definition to_write :: "aggregate list \<Rightarrow> aggregate list" where
  "to_write current_1h_file_data =
     (if int (length current_1h_file_data) > max1h_record_length
      then slice_to max1h_record_length current_1h_file_data
      else current_1h_file_data)"

text \<open>
  \<^verbatim>\<open>push_to_file\<close>. The accumulator is reset before anything is read, and the hourly
  file is written before the two rollups run, so an exception of a later step leaves
  the earlier effects in place.
\<close>

definition push_to_file :: "env \<Rightarrow> monitor \<times> files \<Rightarrow> (monitor \<times> files) outcome" where
  "push_to_file e st =
     (case get_and_reset_stats e (fst st) of
        (None, self) \<Rightarrow> Returned (self, snd st)
      | (Some current_stats_data, self) \<Rightarrow>
          (case hourly_update (load_or_empty (file_1h (snd st))) current_stats_data of
             Inl err \<Rightarrow> Raised err (self, snd st)
           | Inr data \<Rightarrow>
               (case push_to_file_1day ((snd st)\<lparr>file_1h := Content (to_write data)\<rparr>) of
                  Raised err fs1 \<Rightarrow> Raised err (self, fs1)
                | Returned fs1 \<Rightarrow>
                    (case push_to_file_1month fs1 of
                       Raised err fs2 \<Rightarrow> Raised err (self, fs2)
                     | Returned fs2 \<Rightarrow> Returned (self, fs2)))))"

section \<open>The query layer\<close>

text \<open>The loops that rewrite the \<^verbatim>\<open>"datetime"\<close> of each returned record.\<close>

fun localise :: "(datetime \<Rightarrow> datetime) \<Rightarrow> (datetime \<Rightarrow> string) \<Rightarrow> aggregate list
    \<Rightarrow> error + aggregate list" where
  "localise tz fmt [] = Inr []"
| "localise tz fmt (r # rs) =
     (case fromisoformat (rec_datetime r) of
        Inl e \<Rightarrow> Inl e
      | Inr utc_time \<Rightarrow>
          (case localise tz fmt rs of
             Inl e \<Rightarrow> Inl e
           | Inr rs' \<Rightarrow> Inr (r\<lparr>rec_datetime := fmt (tz utc_time)\<rparr> # rs')))"

text \<open>
  What follows the existence checks in the hourly and the daily query: load the file,
  keep the last \<^verbatim>\<open>max_records\<close>, resolve the zone, rewrite the timestamps.
\<close>

definition read_localised :: "env \<Rightarrow> series_file \<Rightarrow> (datetime \<Rightarrow> string) \<Rightarrow> string \<Rightarrow> int
    \<Rightarrow> error + aggregate list" where
  "read_localised e f fmt client_time_zone max_records =
     (case f of
        Missing \<Rightarrow> Inl FileNotFoundError
      | Corrupt \<Rightarrow> Inl JSONDecodeError
      | Content data \<Rightarrow>
          (case pytz_timezone e client_time_zone of
             None \<Rightarrow> Inl (ClientException (''Invalid Timezone: '' @ client_time_zone))
           | Some client_tz \<Rightarrow> localise client_tz fmt (slice_from (- max_records) data)))"

definition get_1h_monitor_records :: "env \<Rightarrow> string \<Rightarrow> int \<Rightarrow> monitor \<times> files
    \<Rightarrow> (error + aggregate list) \<times> (monitor \<times> files)" where
  "get_1h_monitor_records e client_time_zone max_records st =
     (case (if file_1h (snd st) = Missing then push_to_file e st else Returned st) of
        Raised err st' \<Rightarrow> (Inl err, st')
      | Returned st' \<Rightarrow>
          (read_localised e (file_1h (snd st')) strftime_md_Hh client_time_zone max_records, st'))"

definition get_1day_monitor_records :: "env \<Rightarrow> string \<Rightarrow> int \<Rightarrow> files \<Rightarrow> error + aggregate list" where
  "get_1day_monitor_records e client_time_zone max_records fs =
     (if file_1day fs = Missing then Inl (ClientException ''No Data'')
      else read_localised e (file_1day fs) strftime_Ymd client_time_zone max_records)"

definition get_1month_monitor_records :: "int \<Rightarrow> files \<Rightarrow> error + aggregate list" where
  "get_1month_monitor_records max_records fs =
     (case file_1month fs of
        Missing \<Rightarrow> Inl (ClientException ''No Data'')
      | Corrupt \<Rightarrow> Inl JSONDecodeError
      | Content data \<Rightarrow> Inr (slice_from (- max_records) data))"

definition get_last_24h_monitor_data :: "env \<Rightarrow> string \<Rightarrow> monitor \<times> files
    \<Rightarrow> (error + aggregate list) \<times> (monitor \<times> files)" where
  "get_last_24h_monitor_data e client_time_zone st = get_1h_monitor_records e client_time_zone 24 st"

definition get_last_7days_monitor_data :: "env \<Rightarrow> string \<Rightarrow> files \<Rightarrow> error + aggregate list" where
  "get_last_7days_monitor_data e client_time_zone fs = get_1day_monitor_records e client_time_zone 7 fs"

definition get_last_30days_monitor_data :: "env \<Rightarrow> string \<Rightarrow> files \<Rightarrow> error + aggregate list" where
  "get_last_30days_monitor_data e client_time_zone fs = get_1day_monitor_records e client_time_zone 30 fs"

definition get_last_12months_monitor_data :: "files \<Rightarrow> error + aggregate list" where
  "get_last_12months_monitor_data fs = get_1month_monitor_records 12 fs"

section \<open>Auxiliary definitions\<close>

text \<open>
  The body of the merge loop when the record has as many cores as the sum list, where
  nothing can raise, and the values the loop starts from for \<open>k\<close> cores.
\<close>

definition pure_step :: "aggregate \<Rightarrow> merge_vars \<Rightarrow> merge_vars" where
  "pure_step r s =
     \<lparr> cpu_per_core_sum = map2 fadd (cpu_per_core_sum s) (rec_cpu_per_core_avg r),
       cpu_total_sum = fadd (cpu_total_sum s) (rec_cpu_total_avg r),
       ram_avg_sum = fadd (ram_avg_sum s) (rec_ram_avg_used r),
       ram_min_acc = min (ram_min_acc s) (rec_ram_min_used r),
       ram_max_acc = max (ram_max_acc s) (rec_ram_max_used r),
       bandwidth_sum = fadd (bandwidth_sum s) (rec_transfer_total r),
       disk_used_max = max (disk_used_max s) (rec_disk_used r) \<rparr>"

definition merge_start :: "nat \<Rightarrow> merge_vars" where
  "merge_start k =
     \<lparr> cpu_per_core_sum = replicate k 0, cpu_total_sum = 0, ram_avg_sum = 0,
       ram_min_acc = PosInf, ram_max_acc = NegInf, bandwidth_sum = 0, disk_used_max = 0 \<rparr>"

section \<open>Concrete inputs\<close>

text \<open>
  Snapshots with given per-core readings and RAM usage, and runs of them. The literal
  \<^verbatim>\<open>0.1\<close> of Python is the double nearest to 1/10, and likewise \<^verbatim>\<open>7.85\<close>.
\<close>

definition snap :: "rat list \<Rightarrow> rat \<Rightarrow> snapshot" where
  "snap cores used =
     \<lparr> snap_cpu = cores, snap_ram_used = used, snap_disk_used = 20,
       snap_disk_total = 100, snap_transfer_total = 1 \<rparr>"

definition zero_then_ten :: "snapshot list" where
  "zero_then_ten = [snap [10] 0, snap [10] 10]"




text \<open>
  Two environments in the same hour, 10:30 and 10:45 on 2025-01-02, that resolve the
  zone name UTC and nothing else.
\<close>

definition test_env :: env where
  "test_env =
     \<lparr> now_iso = ''2025-01-02T10:30:00+00:00'', vm_total = 32,
       pytz_timezone = (\<lambda>name. if name = ''UTC'' then Some (\<lambda>dt. dt) else None) \<rparr>"

definition test_env_later :: env where
  "test_env_later = test_env\<lparr>now_iso := ''2025-01-02T10:45:00+00:00''\<rparr>"

definition no_files :: files where
  "no_files = \<lparr> file_1h = Missing, file_1day = Missing, file_1month = Missing \<rparr>"

text \<open>
  The records of \<^verbatim>\<open>tests/test_push_to_file_1day.py\<close>: \<^verbatim>\<open>make_hourly_record\<close>, and
  the 24 hourly records of its second day, 2025-01-02, whose RAM average is the float
  expression \<^verbatim>\<open>2 + i * 0.1\<close>.
\<close>

definition iso_hour :: "nat \<Rightarrow> nat \<Rightarrow> nat \<Rightarrow> nat \<Rightarrow> string" where
  "iso_hour y m d h = pad4 y @ ''-'' @ pad2 m @ ''-'' @ pad2 d @ ''T'' @ pad2 h @ '':00:00+00:00''"

definition make_hourly_record :: "string \<Rightarrow> rat \<Rightarrow> rat \<Rightarrow> rat \<Rightarrow> rat \<Rightarrow> aggregate" where
  "make_hourly_record dt cpu_total ram_avg' bw disk_used' =
     \<lparr> rec_datetime = dt, rec_cpu_per_core_avg = replicate 2 cpu_total, rec_cpu_total_avg = cpu_total,
       rec_ram_avg_used = ram_avg', rec_ram_min_used = Fin ram_avg', rec_ram_max_used = Fin ram_avg',
       rec_ram_total = 32, rec_disk_used = disk_used', rec_disk_total = 100, rec_transfer_total = bw \<rparr>"

definition day2 :: "aggregate list" where
  "day2 = map (\<lambda>i. make_hourly_record (iso_hour 2025 1 2 i) (30 + of_nat i)
                    (fadd 2 (fmul (of_nat i) (rnd (1 / 10)))) (3 + of_nat i) (22 + of_nat i)) [0..<24]"

definition hourly_day2 :: files where
  "hourly_day2 = \<lparr> file_1h = Content day2, file_1day = Missing, file_1month = Missing \<rparr>"

text \<open>
  Records for the merge: two that differ in their totals, one with a single core, and
  four whose CPU total averages are the doubles 51.07, 35.6, 40.33 and 15.22.
\<close>

definition rec_a :: aggregate where
  "rec_a = make_hourly_record ''2025-01-02T03:00:00+00:00'' 10 1 5 20"


definition rec_one_core :: aggregate where
  "rec_one_core = (make_hourly_record ''2025-01-02T10:05:00+00:00'' 10 1 5 20)\<lparr>rec_cpu_per_core_avg := [10]\<rparr>"





text \<open>
  An accumulator that holds one sample, the records its flush produces in the two
  environments, and hourly files: a full week of records, a series whose last record
  lies in the hour of the flush, and one whose last record has a single core.
\<close>

definition one_sample_monitor :: monitor where
  "one_sample_monitor =
     \<lparr> cpu_per_core_avg = [10, 20], cpu_total_avg = 15, ram_avg = 4, ram_min = Fin 4,
       ram_max = 4, bandwidth_total = 1, disk_used = 20, disk_total = 100,
       sample_count = 1 \<rparr>"

definition flushed_record :: aggregate where
  "flushed_record =
     \<lparr> rec_datetime = ''2025-01-02T10:30:00+00:00'', rec_cpu_per_core_avg = [10, 20],
       rec_cpu_total_avg = 15, rec_ram_avg_used = 4, rec_ram_min_used = Fin 4,
       rec_ram_max_used = Fin 4, rec_ram_total = 32, rec_disk_used = 20,
       rec_disk_total = 100, rec_transfer_total = 1 \<rparr>"

definition flushed_later :: aggregate where
  "flushed_later = flushed_record\<lparr>rec_datetime := ''2025-01-02T10:45:00+00:00''\<rparr>"

definition rec_c :: aggregate where
  "rec_c = make_hourly_record ''2025-01-02T10:05:00+00:00'' 25 3 7 40"

definition full_week :: files where
  "full_week = \<lparr> file_1h = Content (replicate 168 rec_a), file_1day = Missing, file_1month = Missing \<rparr>"

definition same_hour_files :: files where
  "same_hour_files = \<lparr> file_1h = Content [rec_a, rec_c], file_1day = Missing, file_1month = Missing \<rparr>"

definition one_core_files :: files where
  "one_core_files = \<lparr> file_1h = Content [rec_one_core], file_1day = Missing, file_1month = Missing \<rparr>"

definition merged_c :: aggregate where
  "merged_c =
     \<lparr> rec_datetime = ''2025-01-02T10:05:00+00:00'', rec_cpu_per_core_avg = [35 / 2, 45 / 2],
       rec_cpu_total_avg = 20, rec_ram_avg_used = 7 / 2, rec_ram_min_used = Fin 3,
       rec_ram_max_used = Fin 4, rec_ram_total = 32, rec_disk_used = 40,
       rec_disk_total = 100, rec_transfer_total = 8 \<rparr>"

text \<open>
  Files for the rollups and the queries: an hourly series of one record with no daily
  file, the same after one daily rollup, a daily file alone, and the three files a
  first flush of \<open>one_sample_monitor\<close> leaves.
\<close>

definition one_hour_files :: files where
  "one_hour_files = \<lparr> file_1h = Content [rec_a], file_1day = Missing, file_1month = Missing \<rparr>"

definition daily_once :: aggregate where
  "daily_once = make_hourly_record ''2025-01-02'' 10 1 5 20"

definition one_day_files :: files where
  "one_day_files = \<lparr> file_1h = Content [rec_a], file_1day = Content [daily_once], file_1month = Missing \<rparr>"

definition one_day_only :: files where
  "one_day_only = \<lparr> file_1h = Missing, file_1day = Content [make_hourly_record ''2025-01-02'' 10 1 5 20], file_1month = Missing \<rparr>"

definition flushed_files :: files where
  "flushed_files =
     \<lparr> file_1h = Content [flushed_record],
       file_1day = Content [flushed_record\<lparr>rec_datetime := ''2025-01-02''\<rparr>],
       file_1month = Content [flushed_record\<lparr>rec_datetime := ''2025-01''\<rparr>] \<rparr>"

definition merged_day2 :: aggregate where
  "merged_day2 =
     \<lparr> rec_datetime = ''2025-01-02'', rec_cpu_per_core_avg = [83 / 2, 83 / 2],
       rec_cpu_total_avg = 83 / 2, rec_ram_avg_used = rnd (315 / 100),
       rec_ram_min_used = Fin 2, rec_ram_max_used = Fin (rnd (43 / 10)), rec_ram_total = 32,
       rec_disk_used = 45, rec_disk_total = 100, rec_transfer_total = 348 \<rparr>"

section \<open>Evaluating float operations\<close>

lemma floor_rat_numeral [simp]:
  "\<lfloor>numeral a / numeral b :: rat\<rfloor> = numeral a div numeral b"
  "\<lfloor>- (numeral a / numeral b) :: rat\<rfloor> = - numeral a div numeral b"
  "\<lfloor>1 / numeral b :: rat\<rfloor> = 1 div numeral b"
  "\<lfloor>- (1 / numeral b) :: rat\<rfloor> = - 1 div numeral b"
  using floor_divide_of_int_eq [of "numeral a" "numeral b", where ?'a = rat]
    floor_divide_of_int_eq [of "- numeral a" "numeral b", where ?'a = rat]
    floor_divide_of_int_eq [of 1 "numeral b", where ?'a = rat]
    floor_divide_of_int_eq [of "- 1" "numeral b", where ?'a = rat]
  by simp_all

text \<open>
  The equations that evaluate the float operations on numerals. The recursion of
  \<open>bit_length\<close> is among them, so they are used on closed terms only.
\<close>

lemmas float_eval = rnd_def floor_log2_def pow2_def bit_length.simps round_half_even_def
  round2_def fadd_def fmul_def fdiv_def float_of_nat_def py_sum_def Let_def

lemmas update_eval = snap_def init_monitor_def update_current_stats_def incremental_avg_def

text \<open>The same for parsing and formatting timestamps.\<close>

lemma digit_chars:
  "char_of (48 :: nat) = CHR ''0''" "char_of (49 :: nat) = CHR ''1''"
  "char_of (50 :: nat) = CHR ''2''" "char_of (51 :: nat) = CHR ''3''"
  "char_of (52 :: nat) = CHR ''4''" "char_of (53 :: nat) = CHR ''5''"
  "char_of (54 :: nat) = CHR ''6''" "char_of (55 :: nat) = CHR ''7''"
  "char_of (56 :: nat) = CHR ''8''" "char_of (57 :: nat) = CHR ''9''"
  by code_simp+

lemmas parse_eval = fromisoformat_def parse_date_def parse_time_def parse_hms_def
  parse_offset_def digit_of_def days_in_month_def is_leap_def less_eq_char_def

lemmas format_eval = iso_hour_def pad2_def pad4_def digit_char_def digit_chars
  strftime_Ymd_def strftime_Ym_def strftime_md_Hh_def

section \<open>Flushing an empty accumulator\<close>

text \<open>
  C6. When the accumulator holds no sample, \<^verbatim>\<open>get_and_reset_stats\<close> returns
  \<^verbatim>\<open>None\<close> and leaves the accumulator as it is, and \<^verbatim>\<open>push_to_file\<close> returns
  without raising and without touching any of the three series files.
\<close>

theorem flush_empty_noop:
  "sample_count self = 0 \<Longrightarrow>
     get_and_reset_stats e self = (None, self) \<and>
     push_to_file e (self, fs) = Returned (self, fs)"
  by (simp add: get_and_reset_stats_def push_to_file_def)

theorem flush_empty_noop_witness:
  "sample_count init_monitor = 0 \<and>
   get_and_reset_stats test_env init_monitor = (None, init_monitor) \<and>
   push_to_file test_env (init_monitor, no_files) = Returned (init_monitor, no_files)"
  using flush_empty_noop [of init_monitor test_env no_files]
  by (simp add: init_monitor_def)

section \<open>The RAM statistics of the accumulator\<close>









text \<open>
  C7. The running RAM average is not always the rounded incremental mean of the
  samples: the branch that stores the sample as the average is taken whenever the
  average is zero. After the samples 0 and 10 the average is 10, and their mean is 5.
\<close>

theorem ram_avg_after_zero_sample:
  "feed init_monitor zero_then_ten = Returned
      \<lparr> cpu_per_core_avg = [10], cpu_total_avg = 10, ram_avg = 10, ram_min = Fin 0,
        ram_max = 10, bandwidth_total = 2, disk_used = 20, disk_total = 100,
        sample_count = 2 \<rparr> \<and>
   sum_list (map snap_ram_used zero_then_ten) / of_nat (length zero_then_ten) = 5"
  by (simp add: zero_then_ten_def update_eval float_eval split del: if_split)

section \<open>The division in the update\<close>

text \<open>
  A snapshot with more cores than the accumulator holds makes the update raise
  IndexError, although its CPU list is not empty.
\<close>

theorem update_longer_cpu_counterexample:
  "snap_cpu (snap [10, 20] 4) \<noteq> [] \<and>
   feed init_monitor [snap [10] 4, snap [10, 20] 4] = Raised IndexError
      \<lparr> cpu_per_core_avg = [10], cpu_total_avg = 10, ram_avg = 4, ram_min = Fin 4,
        ram_max = 4, bandwidth_total = 1, disk_used = 20, disk_total = 100,
        sample_count = 1 \<rparr>"
  by (simp add: update_eval float_eval split del: if_split)

lemma update_empty_cpu:
  "snap_cpu s = [] \<Longrightarrow> raised (update_current_stats self s) = Some ZeroDivisionError"
  by (simp add: update_current_stats_def incremental_avg_def Let_def)

lemma update_nonempty_cpu_no_zero_division:
  "snap_cpu s \<noteq> [] \<Longrightarrow> raised (update_current_stats self s) \<noteq> Some ZeroDivisionError"
  by (simp add: update_current_stats_def incremental_avg_def Let_def)

lemma update_nonempty_cpu_returns:
  assumes "snap_cpu s \<noteq> []"
    and "cpu_per_core_avg self = [] \<or> length (snap_cpu s) \<le> length (cpu_per_core_avg self)"
  shows "\<exists>self'. update_current_stats self s = Returned self' \<and>
           length (cpu_per_core_avg self') = length (snap_cpu s) \<and>
           cpu_total_avg self'
             = fdiv (py_sum (cpu_per_core_avg self')) (float_of_nat (length (snap_cpu s)))"
  using assms by (auto simp: update_current_stats_def incremental_avg_def Let_def)

text \<open>
  C10, amended. The update divides by the number of per-core averages, unguarded. With
  an empty CPU list that number is zero and the update raises ZeroDivisionError, on a
  fresh accumulator and on any other. With a non-empty CPU list the division never
  raises, and the update returns whenever the accumulator holds no per-core average yet
  or at least as many as the snapshot has cores; the divisor is then the number of
  cores of the snapshot.
\<close>

theorem update_division:
  "(snap_cpu s = [] \<longrightarrow> raised (update_current_stats self s) = Some ZeroDivisionError) \<and>
   (snap_cpu s \<noteq> [] \<longrightarrow> raised (update_current_stats self s) \<noteq> Some ZeroDivisionError) \<and>
   (snap_cpu s \<noteq> [] \<and>
    (cpu_per_core_avg self = [] \<or> length (snap_cpu s) \<le> length (cpu_per_core_avg self)) \<longrightarrow>
      (\<exists>self'. update_current_stats self s = Returned self' \<and>
           length (cpu_per_core_avg self') = length (snap_cpu s) \<and>
           cpu_total_avg self'
             = fdiv (py_sum (cpu_per_core_avg self')) (float_of_nat (length (snap_cpu s)))))"
  using update_empty_cpu update_nonempty_cpu_no_zero_division update_nonempty_cpu_returns
  by blast

theorem update_division_witness:
  "snap_cpu (snap [] 4) = [] \<and>
   raised (update_current_stats init_monitor (snap [] 4)) = Some ZeroDivisionError \<and>
   snap_cpu (snap [10, 20] 4) \<noteq> [] \<and> cpu_per_core_avg init_monitor = [] \<and>
   raised (update_current_stats init_monitor (snap [10, 20] 4)) \<noteq> Some ZeroDivisionError \<and>
   update_current_stats init_monitor (snap [10, 20] 4) = Returned
      \<lparr> cpu_per_core_avg = [10, 20], cpu_total_avg = 15, ram_avg = 4, ram_min = Fin 4,
        ram_max = 4, bandwidth_total = 1, disk_used = 20, disk_total = 100,
        sample_count = 1 \<rparr>"
proof -
  have run: "update_current_stats init_monitor (snap [10, 20] 4) = Returned
      \<lparr> cpu_per_core_avg = [10, 20], cpu_total_avg = 15, ram_avg = 4, ram_min = Fin 4,
        ram_max = 4, bandwidth_total = 1, disk_used = 20, disk_total = 100,
        sample_count = 1 \<rparr>"
    by (simp add: update_eval float_eval split del: if_split)
  show ?thesis
    using update_division [of "snap [] 4" init_monitor]
      update_division [of "snap [10, 20] 4" init_monitor] run
    by (simp add: snap_def init_monitor_def)
qed

section \<open>Properties of the merge\<close>

lemmas merge_eval = merge_monitor_records_def merge_step_def make_hourly_record_def

lemma add_per_core_same_length:
  "length vs = length acc \<Longrightarrow> add_per_core acc vs = Inr (map2 fadd acc vs)"
  by (induction acc vs rule: add_per_core.induct) auto

lemma merge_step_pure:
  "length (rec_cpu_per_core_avg r) = length (cpu_per_core_sum s) \<Longrightarrow>
     merge_step s r = Inr (pure_step r s)"
  by (simp add: merge_step_def pure_step_def add_per_core_same_length)

lemma length_pure_step:
  "length (rec_cpu_per_core_avg r) = length (cpu_per_core_sum s) \<Longrightarrow>
     length (cpu_per_core_sum (pure_step r s)) = length (cpu_per_core_sum s)"
  by (simp add: pure_step_def)

lemma merge_loop_pure:
  "\<forall>r \<in> set rs. length (rec_cpu_per_core_avg r) = length (cpu_per_core_sum s) \<Longrightarrow>
     merge_loop s rs = Inr (fold pure_step rs s)"
proof (induction rs arbitrary: s)
  case Nil
  then show ?case by simp
next
  case (Cons r rs)
  have step: "merge_step s r = Inr (pure_step r s)"
    using Cons.prems by (simp add: merge_step_pure)
  have "\<forall>q \<in> set rs. length (rec_cpu_per_core_avg q) = length (cpu_per_core_sum (pure_step r s))"
    using Cons.prems by (simp add: length_pure_step)
  then have "merge_loop (pure_step r s) rs = Inr (fold pure_step rs (pure_step r s))"
    by (rule Cons.IH)
  then show ?case
    using step by simp
qed

text \<open>
  A merge of records that all have \<open>k\<close> cores returns.
\<close>

lemma merge_equal_cores_returns:
  assumes "rs \<noteq> []" and "\<forall>r \<in> set rs. length (rec_cpu_per_core_avg r) = k"
  shows "\<exists>m. merge_monitor_records rs key = Inr m"
proof -
  obtain r0 rest where rs: "rs = r0 # rest"
    using assms(1) by (cases rs) auto
  have k: "length (rec_cpu_per_core_avg r0) = k"
    using assms(2) rs by simp
  have "\<forall>r \<in> set rs. length (rec_cpu_per_core_avg r) = length (cpu_per_core_sum (merge_start k))"
    using assms(2) by (simp add: merge_start_def)
  then have loop: "merge_loop (merge_start k) rs = Inr (fold pure_step rs (merge_start k))"
    by (rule merge_loop_pure)
  show ?thesis
    using loop k unfolding merge_monitor_records_def rs merge_start_def
    by (simp add: Let_def)
qed

text \<open>
  What the scalar variables of the loop hold when it ends: sums added from the left
  in double arithmetic, and running extrema.
\<close>

lemma merge_loop_scalars:
  "merge_loop s rs = Inr s' \<Longrightarrow>
     cpu_total_sum s' = foldl fadd (cpu_total_sum s) (map rec_cpu_total_avg rs) \<and>
     ram_avg_sum s' = foldl fadd (ram_avg_sum s) (map rec_ram_avg_used rs) \<and>
     bandwidth_sum s' = foldl fadd (bandwidth_sum s) (map rec_transfer_total rs) \<and>
     disk_used_max s' = foldl max (disk_used_max s) (map rec_disk_used rs) \<and>
     ram_min_acc s' = foldl min (ram_min_acc s) (map rec_ram_min_used rs) \<and>
     ram_max_acc s' = foldl max (ram_max_acc s) (map rec_ram_max_used rs)"
proof (induction rs arbitrary: s)
  case Nil
  then show ?case by simp
next
  case (Cons r rs)
  from Cons.prems obtain t where t: "merge_step s r = Inr t" and rest: "merge_loop t rs = Inr s'"
    by (auto split: sum.splits)
  from t have "cpu_total_sum t = fadd (cpu_total_sum s) (rec_cpu_total_avg r)"
    and "ram_avg_sum t = fadd (ram_avg_sum s) (rec_ram_avg_used r)"
    and "bandwidth_sum t = fadd (bandwidth_sum s) (rec_transfer_total r)"
    and "disk_used_max t = max (disk_used_max s) (rec_disk_used r)"
    and "ram_min_acc t = min (ram_min_acc s) (rec_ram_min_used r)"
    and "ram_max_acc t = max (ram_max_acc s) (rec_ram_max_used r)"
    by (auto simp: merge_step_def split: sum.splits)
  then show ?case
    using Cons.IH [OF rest] by simp
qed

text \<open>The fields of a merged record, whenever the merge returns one.\<close>

lemma merge_Inr_fields:
  assumes "merge_monitor_records rs key = Inr m"
  shows "rs \<noteq> []"
    and "rec_datetime m = key"
    and "rec_cpu_total_avg m
           = round2 (fdiv (foldl fadd 0 (map rec_cpu_total_avg rs)) (float_of_nat (length rs)))"
    and "rec_ram_avg_used m
           = round2 (fdiv (foldl fadd 0 (map rec_ram_avg_used rs)) (float_of_nat (length rs)))"
    and "rec_transfer_total m = round2 (foldl fadd 0 (map rec_transfer_total rs))"
    and "rec_disk_used m = round2 (foldl max 0 (map rec_disk_used rs))"
    and "rec_ram_min_used m = round2x (foldl min PosInf (map rec_ram_min_used rs))"
    and "rec_ram_max_used m = round2x (foldl max NegInf (map rec_ram_max_used rs))"
    and "rec_ram_total m = rec_ram_total (hd rs)"
    and "rec_disk_total m = rec_disk_total (hd rs)"
proof -
  from assms show ne: "rs \<noteq> []"
    by (auto simp: merge_monitor_records_def)
  then obtain r0 rest where rs: "rs = r0 # rest"
    by (cases rs) auto
  from assms obtain s
    where loop: "merge_loop (merge_start (length (rec_cpu_per_core_avg r0))) rs = Inr s"
      and m: "m = \<lparr> rec_datetime = key,
                   rec_cpu_per_core_avg =
                     map (\<lambda>avg_core. round2 (fdiv avg_core (float_of_nat (length rs))))
                       (cpu_per_core_sum s),
                   rec_cpu_total_avg = round2 (fdiv (cpu_total_sum s) (float_of_nat (length rs))),
                   rec_ram_avg_used = round2 (fdiv (ram_avg_sum s) (float_of_nat (length rs))),
                   rec_ram_min_used = round2x (ram_min_acc s),
                   rec_ram_max_used = round2x (ram_max_acc s),
                   rec_ram_total = rec_ram_total r0,
                   rec_disk_used = round2 (disk_used_max s),
                   rec_disk_total = rec_disk_total r0,
                   rec_transfer_total = round2 (bandwidth_sum s) \<rparr>"
    unfolding merge_monitor_records_def rs merge_start_def
    by (auto simp: Let_def split: sum.splits)
  note sc = merge_loop_scalars [OF loop]
  show "rec_datetime m = key"
    by (simp add: m)
  show "rec_cpu_total_avg m
           = round2 (fdiv (foldl fadd 0 (map rec_cpu_total_avg rs)) (float_of_nat (length rs)))"
    using sc by (simp add: m merge_start_def)
  show "rec_ram_avg_used m
           = round2 (fdiv (foldl fadd 0 (map rec_ram_avg_used rs)) (float_of_nat (length rs)))"
    using sc by (simp add: m merge_start_def)
  show "rec_transfer_total m = round2 (foldl fadd 0 (map rec_transfer_total rs))"
    using sc by (simp add: m merge_start_def)
  show "rec_disk_used m = round2 (foldl max 0 (map rec_disk_used rs))"
    using sc by (simp add: m merge_start_def)
  show "rec_ram_min_used m = round2x (foldl min PosInf (map rec_ram_min_used rs))"
    using sc by (simp add: m merge_start_def)
  show "rec_ram_max_used m = round2x (foldl max NegInf (map rec_ram_max_used rs))"
    using sc by (simp add: m merge_start_def)
  show "rec_ram_total m = rec_ram_total (hd rs)" "rec_disk_total m = rec_disk_total (hd rs)"
    by (simp_all add: m rs)
qed












section \<open>The daily rollup of one day\<close>

text \<open>
  A timestamp that parses and starts with \<^verbatim>\<open>2025-01-02\<close> is grouped under that key.
\<close>

lemma parse_date_20250102: "parse_date ''2025-01-02'' = Some (2025, 1, 2)"
  by (simp add: parse_eval)

lemma strftime_20250102:
  "pad4 2025 @ ''-'' @ pad2 1 @ ''-'' @ pad2 2 = ''2025-01-02''"
  by (simp add: format_eval)

lemma key_20250102:
  assumes "fromisoformat s = Inr dt" and "take 10 s = ''2025-01-02''"
  shows "strftime_Ymd dt = ''2025-01-02''"
proof -
  have "dt_year dt = 2025 \<and> dt_month dt = 1 \<and> dt_day dt = 2"
    using assms
    by (auto simp: fromisoformat_def parse_date_20250102 split: if_splits option.splits)
  then show ?thesis
    using strftime_20250102 by (simp add: strftime_Ymd_def)
qed

text \<open>Records that all fall under one key are collected, in order, in one group.\<close>

lemma group_by_parsed_one_key:
  "\<forall>r \<in> set rs. \<exists>dt. fromisoformat (rec_datetime r) = Inr dt \<and> fmt dt = k \<Longrightarrow>
     group_by_parsed fmt [(k, acc)] rs = Inr [(k, acc @ rs)]"
  by (induction rs arbitrary: acc) auto

lemma group_by_parsed_one_key_fresh:
  assumes "rs \<noteq> []"
    and "\<forall>r \<in> set rs. \<exists>dt. fromisoformat (rec_datetime r) = Inr dt \<and> fmt dt = k"
  shows "group_by_parsed fmt [] rs = Inr [(k, rs)]"
proof -
  obtain r rest where rs: "rs = r # rest"
    using assms(1) by (cases rs) auto
  obtain dt where dt: "fromisoformat (rec_datetime r) = Inr dt" "fmt dt = k"
    using assms(2) rs by auto
  have "group_by_parsed fmt [(k, [r])] rest = Inr [(k, [r] @ rest)]"
    by (rule group_by_parsed_one_key) (use assms(2) rs in simp)
  then show ?thesis
    using dt by (simp add: rs)
qed

text \<open>
  The daily rollup of an hourly series whose records all lie on 2025-01-02, with no
  daily record stored yet: one merge, keyed with the first ten characters of the
  first timestamp.
\<close>

lemma push_to_file_1day_one_day:
  assumes "file_1h fs = Content rs" and "rs \<noteq> []"
    and "load_or_empty (file_1day fs) = []"
    and "\<forall>r \<in> set rs. take 10 (rec_datetime r) = ''2025-01-02'' \<and>
           (\<exists>dt. fromisoformat (rec_datetime r) = Inr dt)"
  shows "push_to_file_1day fs =
           (case merge_monitor_records rs ''2025-01-02'' of
              Inl e \<Rightarrow> Raised e fs
            | Inr m \<Rightarrow> Returned (fs\<lparr>file_1day := Content [m]\<rparr>))"
proof -
  have "\<forall>r \<in> set rs. \<exists>dt. fromisoformat (rec_datetime r) = Inr dt \<and>
          strftime_Ymd dt = ''2025-01-02''"
    using assms(4) key_20250102 by blast
  then have grp: "group_by_parsed strftime_Ymd [] rs = Inr [(''2025-01-02'', rs)]"
    by (rule group_by_parsed_one_key_fresh [OF assms(2)])
  obtain r0 rest where rs: "rs = r0 # rest"
    using assms(2) by (cases rs) auto
  have key: "take 10 (rec_datetime r0) = ''2025-01-02''"
    using assms(4) rs by simp
  have "merge_daily_groups [(''2025-01-02'', rs)] =
          (case merge_monitor_records rs ''2025-01-02'' of
             Inl e \<Rightarrow> Inl e
           | Inr m \<Rightarrow> Inr [m])"
    using key by (simp add: rs split: sum.splits)
  then show ?thesis
    using assms(1,2,3) grp
    by (simp add: push_to_file_1day_def slice_from_def max1d_record_length_def split: sum.splits)
qed

lemma sum_30_53: "foldl fadd 0 [30, 31, 32, 33, 34, 35, 36, 37, 38, 39, 40, 41, 42, 43, 44, 45, 46, 47, 48, 49, 50, 51, 52, 53] = 996"
  by (simp add: float_eval split del: if_split)

lemma sum_3_26: "foldl fadd 0 [3, 4, 5, 6, 7, 8, 9, 10, 11, 12, 13, 14, 15, 16, 17, 18, 19, 20, 21, 22, 23, 24, 25, 26] = 348"
  by (simp add: float_eval split del: if_split)

lemma max_22_45: "foldl max (0 :: rat) [22, 23, 24, 25, 26, 27, 28, 29, 30, 31, 32, 33, 34, 35, 36, 37, 38, 39, 40, 41, 42, 43, 44, 45] = 45"
  by simp

lemma round_scenario:
  "round2 (fdiv 996 (float_of_nat 24)) = 83 / 2" "round2 45 = 45" "round2 348 = 348"
  by (simp_all add: float_eval split del: if_split)

text \<open>
  C9. The hourly series holds 24 records whose timestamps parse and lie on 2025-01-02,
  with the CPU total averages 30 to 53, the disk usages 22 to 45 and the bandwidth
  totals 3 to 26, and no daily record is stored yet. Whenever the daily rollup
  returns, the daily series it has written is one record, keyed \<^verbatim>\<open>2025-01-02\<close>,
  with the CPU total average 41.5 (the mean), the disk usage 45 (the maximum) and
  the bandwidth total 348 (the sum).
\<close>

theorem daily_rollup_scenario:
  assumes hourly: "file_1h fs = Content rs"
    and daily: "load_or_empty (file_1day fs) = []"
    and day: "\<forall>r \<in> set rs. take 10 (rec_datetime r) = ''2025-01-02'' \<and>
           (\<exists>dt. fromisoformat (rec_datetime r) = Inr dt)"
    and cpu: "map rec_cpu_total_avg rs = [30, 31, 32, 33, 34, 35, 36, 37, 38, 39, 40, 41, 42, 43, 44, 45, 46, 47, 48, 49, 50, 51, 52, 53]"
    and disk: "map rec_disk_used rs = [22, 23, 24, 25, 26, 27, 28, 29, 30, 31, 32, 33, 34, 35, 36, 37, 38, 39, 40, 41, 42, 43, 44, 45]"
    and bw: "map rec_transfer_total rs = [3, 4, 5, 6, 7, 8, 9, 10, 11, 12, 13, 14, 15, 16, 17, 18, 19, 20, 21, 22, 23, 24, 25, 26]"
    and returns: "push_to_file_1day fs = Returned fs'"
  shows "\<exists>m. file_1day fs' = Content [m] \<and> rec_datetime m = ''2025-01-02'' \<and>
           rec_cpu_total_avg m = 83 / 2 \<and> rec_disk_used m = 45 \<and>
           rec_transfer_total m = 348"
proof -
  have "length (map rec_cpu_total_avg rs) = 24"
    unfolding cpu by simp
  then have len: "length rs = 24"
    by simp
  then have ne: "rs \<noteq> []"
    by auto
  note run = push_to_file_1day_one_day [OF hourly ne daily day]
  from returns run obtain m where m: "merge_monitor_records rs ''2025-01-02'' = Inr m"
    and fs': "fs' = fs\<lparr>file_1day := Content [m]\<rparr>"
    by (auto split: sum.splits)
  note f = merge_Inr_fields [OF m]
  have "rec_cpu_total_avg m = 83 / 2"
    unfolding f(3) cpu len sum_30_53 by (rule round_scenario)
  moreover have "rec_disk_used m = 45"
    unfolding f(6) disk max_22_45 by (rule round_scenario)
  moreover have "rec_transfer_total m = 348"
    unfolding f(5) bw sum_3_26 by (rule round_scenario)
  ultimately show ?thesis
    using f(2) fs' by simp
qed

lemma day2_cpu: "map rec_cpu_total_avg day2 = [30, 31, 32, 33, 34, 35, 36, 37, 38, 39, 40, 41, 42, 43, 44, 45, 46, 47, 48, 49, 50, 51, 52, 53]"
  by (simp add: day2_def make_hourly_record_def upt_rec)

lemma day2_disk: "map rec_disk_used day2 = [22, 23, 24, 25, 26, 27, 28, 29, 30, 31, 32, 33, 34, 35, 36, 37, 38, 39, 40, 41, 42, 43, 44, 45]"
  by (simp add: day2_def make_hourly_record_def upt_rec)

lemma day2_bw: "map rec_transfer_total day2 = [3, 4, 5, 6, 7, 8, 9, 10, 11, 12, 13, 14, 15, 16, 17, 18, 19, 20, 21, 22, 23, 24, 25, 26]"
  by (simp add: day2_def make_hourly_record_def upt_rec)

lemma day2_datetimes: "map rec_datetime day2 = map (iso_hour 2025 1 2) [0..<24]"
  by (simp add: day2_def make_hourly_record_def)

lemma day2_timestamps_parse:
  "list_all (\<lambda>s. take 10 s = ''2025-01-02'' \<and> \<not> isl (fromisoformat s))
     (map (iso_hour 2025 1 2) [0..<24])"
  by (simp add: format_eval parse_eval upt_rec)

lemma day2_on_one_day:
  "\<forall>r \<in> set day2. take 10 (rec_datetime r) = ''2025-01-02'' \<and>
     (\<exists>dt. fromisoformat (rec_datetime r) = Inr dt)"
proof
  fix r
  assume "r \<in> set day2"
  then have "rec_datetime r \<in> set (map rec_datetime day2)"
    by simp
  then have "rec_datetime r \<in> set (map (iso_hour 2025 1 2) [0..<24])"
    by (simp only: day2_datetimes)
  then have "take 10 (rec_datetime r) = ''2025-01-02'' \<and> \<not> isl (fromisoformat (rec_datetime r))"
    using day2_timestamps_parse unfolding list_all_iff by blast
  then show "take 10 (rec_datetime r) = ''2025-01-02'' \<and>
     (\<exists>dt. fromisoformat (rec_datetime r) = Inr dt)"
    by (cases "fromisoformat (rec_datetime r)") auto
qed

lemma day2_two_cores: "\<forall>r \<in> set day2. length (rec_cpu_per_core_avg r) = 2"
  by (auto simp: day2_def make_hourly_record_def)

theorem daily_rollup_scenario_witness:
  "file_1h hourly_day2 = Content day2 \<and> load_or_empty (file_1day hourly_day2) = [] \<and>
   length day2 = 24 \<and> hd (map rec_datetime day2) = ''2025-01-02T00:00:00+00:00'' \<and>
   (\<exists>m. push_to_file_1day hourly_day2 = Returned (hourly_day2\<lparr>file_1day := Content [m]\<rparr>) \<and>
        rec_datetime m = ''2025-01-02'' \<and> rec_cpu_total_avg m = 83 / 2 \<and>
        rec_disk_used m = 45 \<and> rec_transfer_total m = 348)"
proof -
  have hourly: "file_1h hourly_day2 = Content day2"
    and daily: "load_or_empty (file_1day hourly_day2) = []"
    by (simp_all add: hourly_day2_def)
  have len: "length day2 = 24"
    by (simp add: day2_def)
  then have ne: "day2 \<noteq> []"
    by auto
  obtain m where m: "merge_monitor_records day2 ''2025-01-02'' = Inr m"
    using merge_equal_cores_returns [OF ne day2_two_cores] by blast
  have returns: "push_to_file_1day hourly_day2 = Returned (hourly_day2\<lparr>file_1day := Content [m]\<rparr>)"
    using push_to_file_1day_one_day [OF hourly ne daily day2_on_one_day] m by simp
  have first: "hd (map rec_datetime day2) = ''2025-01-02T00:00:00+00:00''"
    unfolding day2_datetimes by (simp add: format_eval upt_rec)
  show ?thesis
    using daily_rollup_scenario [OF hourly daily day2_on_one_day day2_cpu day2_disk day2_bw returns]
      hourly daily len first returns
    by auto
qed

section \<open>What the hourly flush writes\<close>

text \<open>The two rollups never write the hourly file, whether they return or raise.\<close>

lemma push_to_file_1day_keeps_1h: "file_1h (state_of (push_to_file_1day fs)) = file_1h fs"
  by (simp add: push_to_file_1day_def split: series_file.splits sum.splits)

lemma push_to_file_1month_keeps_1h: "file_1h (state_of (push_to_file_1month fs)) = file_1h fs"
  by (simp add: push_to_file_1month_def split: series_file.splits sum.splits)

text \<open>
  What a flush that produced a record writes to the hourly file, whatever the rollups
  that follow do.
\<close>

lemma push_to_file_writes_1h:
  assumes "get_and_reset_stats e self = (Some new, self')"
    and "hourly_update (load_or_empty (file_1h fs)) new = Inr data"
  shows "file_1h (snd (state_of (push_to_file e (self, fs)))) = Content (to_write data)"
proof -
  let ?fs0 = "fs\<lparr>file_1h := Content (to_write data)\<rparr>"
  have a: "file_1h (state_of (push_to_file_1day ?fs0)) = Content (to_write data)"
    by (simp add: push_to_file_1day_keeps_1h)
  have b: "file_1h (state_of (push_to_file_1month (state_of (push_to_file_1day ?fs0)))) = Content (to_write data)"
    by (simp add: push_to_file_1month_keeps_1h a)
  show ?thesis
  proof (cases "push_to_file_1day ?fs0")
    case (Raised err fs1)
    then show ?thesis
      using a assms by (simp add: push_to_file_def)
  next
    case (Returned fs1)
    then show ?thesis
      using a b assms by (cases "push_to_file_1month fs1") (simp_all add: push_to_file_def)
  qed
qed

lemma flush_one_sample:
  "get_and_reset_stats test_env one_sample_monitor = (Some flushed_record, init_monitor)"
  by (simp add: get_and_reset_stats_def one_sample_monitor_def test_env_def flushed_record_def
      float_eval split del: if_split)

lemma flush_one_sample_later:
  "get_and_reset_stats test_env_later one_sample_monitor = (Some flushed_later, init_monitor)"
  by (simp add: get_and_reset_stats_def one_sample_monitor_def test_env_def test_env_later_def
      flushed_record_def flushed_later_def float_eval split del: if_split)

lemma parse_0300:
  "fromisoformat ''2025-01-02T03:00:00+00:00'' =
     Inr \<lparr> dt_year = 2025, dt_month = 1, dt_day = 2, dt_hour = 3, dt_minute = 0,
           dt_second = 0, dt_microsecond = 0, dt_utcoffset = Some 0 \<rparr>"
  by (simp add: parse_eval)

lemma parse_1005:
  "fromisoformat ''2025-01-02T10:05:00+00:00'' =
     Inr \<lparr> dt_year = 2025, dt_month = 1, dt_day = 2, dt_hour = 10, dt_minute = 5,
           dt_second = 0, dt_microsecond = 0, dt_utcoffset = Some 0 \<rparr>"
  by (simp add: parse_eval)

lemma parse_1030:
  "fromisoformat ''2025-01-02T10:30:00+00:00'' =
     Inr \<lparr> dt_year = 2025, dt_month = 1, dt_day = 2, dt_hour = 10, dt_minute = 30,
           dt_second = 0, dt_microsecond = 0, dt_utcoffset = Some 0 \<rparr>"
  by (simp add: parse_eval)

lemma parse_1045:
  "fromisoformat ''2025-01-02T10:45:00+00:00'' =
     Inr \<lparr> dt_year = 2025, dt_month = 1, dt_day = 2, dt_hour = 10, dt_minute = 45,
           dt_second = 0, dt_microsecond = 0, dt_utcoffset = Some 0 \<rparr>"
  by (simp add: parse_eval)

lemmas parsed = parse_0300 parse_1005 parse_1030 parse_1045

lemma length_to_write: "length (to_write data) \<le> nat max1h_record_length"
  by (simp add: to_write_def slice_to_def max1h_record_length_def)

text \<open>
  C2. When the flush appends its record to the loaded series and the appended list is
  longer than \<^verbatim>\<open>max1h_record_length\<close>, the hourly file receives the first
  \<^verbatim>\<open>max1h_record_length\<close> records of the appended list. These are the first
  \<^verbatim>\<open>max1h_record_length\<close> records of the series as loaded, so the new record is the
  one left out, and the written series has exactly \<^verbatim>\<open>max1h_record_length\<close> records.
  Whatever list a flush ends with, the list it writes is never longer than that.
\<close>

theorem hourly_truncation:
  assumes "get_and_reset_stats e self = (Some new, self')"
    and "hourly_update (load_or_empty (file_1h fs)) new = Inr (load_or_empty (file_1h fs) @ [new])"
    and "max1h_record_length < int (length (load_or_empty (file_1h fs) @ [new]))"
  shows "file_1h (snd (state_of (push_to_file e (self, fs))))
           = Content (take (nat max1h_record_length) (load_or_empty (file_1h fs) @ [new])) \<and>
         take (nat max1h_record_length) (load_or_empty (file_1h fs) @ [new])
           = take (nat max1h_record_length) (load_or_empty (file_1h fs)) \<and>
         length (take (nat max1h_record_length) (load_or_empty (file_1h fs) @ [new]))
           = nat max1h_record_length \<and>
         length (to_write data) \<le> nat max1h_record_length"
proof -
  have "to_write (load_or_empty (file_1h fs) @ [new])
          = take (nat max1h_record_length) (load_or_empty (file_1h fs) @ [new])"
    using assms(3) by (simp add: to_write_def slice_to_def max1h_record_length_def)
  then show ?thesis
    using push_to_file_writes_1h [OF assms(1) assms(2)] assms(3) length_to_write [of data]
    by (simp add: max1h_record_length_def)
qed

lemma full_week_append:
  "hourly_update (replicate 168 rec_a) flushed_record = Inr (replicate 168 rec_a @ [flushed_record])"
  "hourly_update (replicate 168 rec_a) flushed_later = Inr (replicate 168 rec_a @ [flushed_later])"
  by (simp_all add: hourly_update_def rec_a_def make_hourly_record_def flushed_record_def
      flushed_later_def parsed date_of_def)

theorem hourly_truncation_witness:
  "get_and_reset_stats test_env one_sample_monitor = (Some flushed_record, init_monitor) \<and>
   hourly_update (replicate 168 rec_a) flushed_record = Inr (replicate 168 rec_a @ [flushed_record]) \<and>
   max1h_record_length < int (length (replicate 168 rec_a @ [flushed_record])) \<and>
   file_1h (snd (state_of (push_to_file test_env (one_sample_monitor, full_week))))
     = Content (replicate 168 rec_a)"
proof -
  have fl: "load_or_empty (file_1h full_week) = replicate 168 rec_a"
    by (simp add: full_week_def)
  have upd: "hourly_update (load_or_empty (file_1h full_week)) flushed_record
               = Inr (load_or_empty (file_1h full_week) @ [flushed_record])"
    unfolding fl by (rule full_week_append)
  have len: "max1h_record_length < int (length (load_or_empty (file_1h full_week) @ [flushed_record]))"
    unfolding fl by (simp add: max1h_record_length_def)
  show ?thesis
    using hourly_truncation [OF flush_one_sample upd len] upd len flush_one_sample
    unfolding fl by (simp add: max1h_record_length_def)
qed

section \<open>Two flushes in one hour\<close>

lemma add_per_core_shorter:
  "length vs \<le> length acc \<Longrightarrow> \<exists>r. add_per_core acc vs = Inr r \<and> length r = length acc"
  by (induction acc vs rule: add_per_core.induct) auto

lemma merge_pair_returns:
  assumes "length (rec_cpu_per_core_avg new) \<le> length (rec_cpu_per_core_avg lst)"
  shows "\<exists>merged. merge_monitor_records [lst, new] key = Inr merged \<and> rec_datetime merged = key"
proof -
  let ?k = "length (rec_cpu_per_core_avg lst)"
  obtain c1 where c1: "add_per_core (replicate ?k 0) (rec_cpu_per_core_avg lst) = Inr c1"
    and l1: "length c1 = ?k"
    using add_per_core_shorter [of "rec_cpu_per_core_avg lst" "replicate ?k 0"] by auto
  obtain c2 where c2: "add_per_core c1 (rec_cpu_per_core_avg new) = Inr c2"
    using add_per_core_shorter [of "rec_cpu_per_core_avg new" c1] assms l1 by auto
  show ?thesis
    by (simp add: merge_monitor_records_def merge_step_def c1 c2 Let_def)
qed

text \<open>
  After a flush has stored its record, by appending or by merging, the last record of
  the series carries the hour and the date of that flush.
\<close>

lemma hourly_update_last:
  assumes "hourly_update xs new = Inr data"
    and "fromisoformat (rec_datetime new) = Inr new_dt"
  shows "data \<noteq> [] \<and>
         (\<exists>last_dt. fromisoformat (rec_datetime (last data)) = Inr last_dt \<and>
            dt_hour last_dt = dt_hour new_dt \<and> date_of last_dt = date_of new_dt)"
proof (cases "xs = []")
  case True
  then show ?thesis
    using assms by (auto simp: hourly_update_def)
next
  case False
  then obtain old_dt where old: "fromisoformat (rec_datetime (last xs)) = Inr old_dt"
    using assms by (auto simp: hourly_update_def split: sum.splits)
  show ?thesis
  proof (cases "dt_hour old_dt = dt_hour new_dt \<and> date_of old_dt = date_of new_dt")
    case True
    then obtain merged
      where m: "merge_monitor_records [last xs, new] (rec_datetime (last xs)) = Inr merged"
        and data: "data = butlast xs @ [merged]"
      using assms False old by (auto simp: hourly_update_def split: sum.splits)
    have "rec_datetime merged = rec_datetime (last xs)"
      using merge_Inr_fields(2) [OF m] .
    then show ?thesis
      using True old data by simp
  next
    case no: False
    then have "data = xs @ [new]"
      using assms False old by (auto simp: hourly_update_def split: sum.splits)
    then show ?thesis
      using assms(2) by simp
  qed
qed

lemma full_week_twice:
  "file_1h (snd (state_of (push_to_file test_env_later
     (one_sample_monitor, snd (state_of (push_to_file test_env (one_sample_monitor, full_week)))))))
     = Content (replicate 168 rec_a)"
proof -
  let ?fs1 = "snd (state_of (push_to_file test_env (one_sample_monitor, full_week)))"
  have tw: "to_write (replicate 168 rec_a @ [x]) = replicate 168 rec_a" for x
    by (simp add: to_write_def slice_to_def max1h_record_length_def)
  have "hourly_update (load_or_empty (file_1h full_week)) flushed_record
          = Inr (replicate 168 rec_a @ [flushed_record])"
    by (simp add: full_week_def full_week_append)
  then have one: "file_1h ?fs1 = Content (replicate 168 rec_a)"
    using push_to_file_writes_1h [OF flush_one_sample] tw by simp
  then have "hourly_update (load_or_empty (file_1h ?fs1)) flushed_later
          = Inr (replicate 168 rec_a @ [flushed_later])"
    by (simp add: full_week_append)
  then show ?thesis
    using push_to_file_writes_1h [OF flush_one_sample_later] tw by simp
qed

lemma one_core_flush:
  "push_to_file test_env (one_sample_monitor, one_core_files)
     = Raised IndexError (init_monitor, one_core_files)"
  by (simp add: push_to_file_def flush_one_sample one_core_files_def hourly_update_def
      rec_one_core_def flushed_record_def parsed date_of_def merge_eval float_eval
      split del: if_split)

text \<open>
  Two flushes in one hour that do not end in a merged last record. With 168 records
  stored, the record of the flush at 10:30 is appended and cut off again, so the flush
  at 10:45 finds the old last record, appends and is cut off as well: the series is
  what it was, and its last record is still the one of 03:00. With a stored last
  record of one core in the hour of the flush, the flush of a two-core record raises
  IndexError after the accumulator has been reset, and writes nothing.
\<close>

theorem two_flushes_counterexample:
  "get_and_reset_stats test_env one_sample_monitor = (Some flushed_record, init_monitor) \<and>
   get_and_reset_stats test_env_later one_sample_monitor = (Some flushed_later, init_monitor) \<and>
   file_1h full_week = Content (replicate 168 rec_a) \<and>
   file_1h (snd (state_of (push_to_file test_env_later
     (one_sample_monitor, snd (state_of (push_to_file test_env (one_sample_monitor, full_week)))))))
     = Content (replicate 168 rec_a) \<and>
   rec_datetime (last (replicate 168 rec_a)) = ''2025-01-02T03:00:00+00:00'' \<and>
   file_1h one_core_files = Content [rec_one_core] \<and>
   rec_datetime rec_one_core = ''2025-01-02T10:05:00+00:00'' \<and>
   push_to_file test_env (one_sample_monitor, one_core_files)
     = Raised IndexError (init_monitor, one_core_files)"
proof -
  have week: "file_1h full_week = Content (replicate 168 rec_a)"
    by (simp add: full_week_def)
  have old: "rec_datetime (last (replicate 168 rec_a)) = ''2025-01-02T03:00:00+00:00''"
    by (simp add: rec_a_def make_hourly_record_def)
  have one: "file_1h one_core_files = Content [rec_one_core]"
    by (simp add: one_core_files_def)
  have stamp: "rec_datetime rec_one_core = ''2025-01-02T10:05:00+00:00''"
    by (simp add: rec_one_core_def make_hourly_record_def)
  from flush_one_sample flush_one_sample_later week full_week_twice old one stamp one_core_flush
  show ?thesis
    by blast
qed

text \<open>
  C8, amended. Two flushes produce records whose timestamps lie in the same hour of
  the same date. The first stores its record, by appending or by merging, in a series
  that stays within \<^verbatim>\<open>max1h_record_length\<close>, and the record of the second has at most
  as many cores as the last record the first has left. Then the second flush appends
  nothing: the last record is replaced by the merge of it and the new record, keyed
  with the \<^verbatim>\<open>"datetime"\<close> the last record had, and the series keeps its length.
\<close>

theorem two_flushes_same_hour:
  assumes first: "get_and_reset_stats e1 self1 = (Some new1, self1')"
    and stored: "hourly_update (load_or_empty (file_1h fs)) new1 = Inr data1"
    and fits: "int (length data1) \<le> max1h_record_length"
    and second: "get_and_reset_stats e2 self2 = (Some new2, self2')"
    and dt1: "fromisoformat (rec_datetime new1) = Inr new1_dt"
    and dt2: "fromisoformat (rec_datetime new2) = Inr new2_dt"
    and hour: "dt_hour new1_dt = dt_hour new2_dt"
    and date: "date_of new1_dt = date_of new2_dt"
    and cores: "length (rec_cpu_per_core_avg new2) \<le> length (rec_cpu_per_core_avg (last data1))"
  shows "\<exists>merged.
           file_1h (snd (state_of (push_to_file e1 (self1, fs)))) = Content data1 \<and>
           merge_monitor_records [last data1, new2] (rec_datetime (last data1)) = Inr merged \<and>
           rec_datetime merged = rec_datetime (last data1) \<and>
           file_1h (snd (state_of (push_to_file e2
               (self2, snd (state_of (push_to_file e1 (self1, fs)))))))
             = Content (butlast data1 @ [merged]) \<and>
           length (butlast data1 @ [merged]) = length data1"
proof -
  let ?fs1 = "snd (state_of (push_to_file e1 (self1, fs)))"
  have "to_write data1 = data1"
    using fits by (simp add: to_write_def)
  then have one: "file_1h ?fs1 = Content data1"
    using push_to_file_writes_1h [OF first stored] by simp
  obtain last_dt where ne: "data1 \<noteq> []"
    and last_dt: "fromisoformat (rec_datetime (last data1)) = Inr last_dt"
    and same: "dt_hour last_dt = dt_hour new1_dt" "date_of last_dt = date_of new1_dt"
    using hourly_update_last [OF stored dt1] by blast
  obtain merged
    where m: "merge_monitor_records [last data1, new2] (rec_datetime (last data1)) = Inr merged"
      and key: "rec_datetime merged = rec_datetime (last data1)"
    using merge_pair_returns [OF cores] by blast
  have upd: "hourly_update (load_or_empty (file_1h ?fs1)) new2 = Inr (butlast data1 @ [merged])"
    using one ne last_dt dt2 same hour date m by (simp add: hourly_update_def)
  have len: "length (butlast data1 @ [merged]) = length data1"
    using ne by (cases data1 rule: rev_cases) auto
  then have "to_write (butlast data1 @ [merged]) = butlast data1 @ [merged]"
    using fits by (simp add: to_write_def)
  then have "file_1h (snd (state_of (push_to_file e2 (self2, ?fs1)))) = Content (butlast data1 @ [merged])"
    using push_to_file_writes_1h [OF second upd] by simp
  then show ?thesis
    using one m key len by blast
qed

lemma merge_flushed_pair:
  "merge_monitor_records [flushed_record, flushed_later] ''2025-01-02T10:30:00+00:00''
     = Inr (flushed_record\<lparr>rec_transfer_total := 2\<rparr>)"
  by (simp add: merge_eval flushed_record_def flushed_later_def float_eval numeral_2_eq_2
      split del: if_split)

theorem two_flushes_same_hour_witness:
  "get_and_reset_stats test_env one_sample_monitor = (Some flushed_record, init_monitor) \<and>
   hourly_update (load_or_empty (file_1h one_hour_files)) flushed_record
     = Inr [rec_a, flushed_record] \<and>
   get_and_reset_stats test_env_later one_sample_monitor = (Some flushed_later, init_monitor) \<and>
   file_1h (snd (state_of (push_to_file test_env (one_sample_monitor, one_hour_files))))
     = Content [rec_a, flushed_record] \<and>
   file_1h (snd (state_of (push_to_file test_env_later
     (one_sample_monitor, snd (state_of (push_to_file test_env (one_sample_monitor, one_hour_files)))))))
     = Content [rec_a, flushed_record\<lparr>rec_transfer_total := 2\<rparr>]"
proof -
  have stored: "hourly_update (load_or_empty (file_1h one_hour_files)) flushed_record
     = Inr [rec_a, flushed_record]"
    by (simp add: one_hour_files_def hourly_update_def rec_a_def make_hourly_record_def
        flushed_record_def parsed date_of_def)
  have fits: "int (length [rec_a, flushed_record]) \<le> max1h_record_length"
    by (simp add: max1h_record_length_def)
  have dt1: "fromisoformat (rec_datetime flushed_record) =
     Inr \<lparr> dt_year = 2025, dt_month = 1, dt_day = 2, dt_hour = 10, dt_minute = 30,
           dt_second = 0, dt_microsecond = 0, dt_utcoffset = Some 0 \<rparr>"
    by (simp add: flushed_record_def parsed)
  have dt2: "fromisoformat (rec_datetime flushed_later) =
     Inr \<lparr> dt_year = 2025, dt_month = 1, dt_day = 2, dt_hour = 10, dt_minute = 45,
           dt_second = 0, dt_microsecond = 0, dt_utcoffset = Some 0 \<rparr>"
    by (simp add: flushed_later_def parsed)
  have cores: "length (rec_cpu_per_core_avg flushed_later)
                 \<le> length (rec_cpu_per_core_avg (last [rec_a, flushed_record]))"
    by (simp add: flushed_later_def)
  have m: "merge_monitor_records [last [rec_a, flushed_record], flushed_later]
             (rec_datetime (last [rec_a, flushed_record]))
           = Inr (flushed_record\<lparr>rec_transfer_total := 2\<rparr>)"
    using merge_flushed_pair by (simp add: flushed_record_def)
  show ?thesis
    using two_flushes_same_hour [OF flush_one_sample stored fits flush_one_sample_later dt1 dt2 _ _ cores]
      flush_one_sample flush_one_sample_later stored m
    by (simp add: date_of_def)
qed

section \<open>Running a rollup again\<close>

lemmas rollup_eval = push_to_file_1day_def push_to_file_1month_def slice_from_def
  max1d_record_length_def max1month_record_length_def

text \<open>
  C1. A rollup merges the records of the finer series with the record its own file
  already holds for the same key. Run a second time with the finer series unchanged,
  the daily rollup reads the daily record it wrote and adds the hourly bandwidth to it
  once more: 5 after the first run, 10 after the second. The monthly rollup does the
  same with the daily and the monthly file.
\<close>

theorem rollup_rerun_doubles_bandwidth:
  "push_to_file_1day one_hour_files = Returned (one_hour_files\<lparr>file_1day := Content [daily_once]\<rparr>) \<and>
   push_to_file_1day (one_hour_files\<lparr>file_1day := Content [daily_once]\<rparr>)
     = Returned (one_hour_files\<lparr>file_1day := Content [daily_once\<lparr>rec_transfer_total := 10\<rparr>]\<rparr>) \<and>
   rec_transfer_total daily_once = 5 \<and>
   push_to_file_1month one_day_files
     = Returned (one_day_files\<lparr>file_1month := Content [daily_once\<lparr>rec_datetime := ''2025-01''\<rparr>]\<rparr>) \<and>
   push_to_file_1month (one_day_files\<lparr>file_1month := Content [daily_once\<lparr>rec_datetime := ''2025-01''\<rparr>]\<rparr>)
     = Returned (one_day_files\<lparr>file_1month :=
         Content [daily_once\<lparr>rec_datetime := ''2025-01'', rec_transfer_total := 10\<rparr>]\<rparr>)"
  by (simp add: rollup_eval one_hour_files_def one_day_files_def daily_once_def rec_a_def
      merge_eval parse_eval format_eval float_eval numeral_2_eq_2 split del: if_split)

section \<open>The failures of the query layer\<close>

text \<open>
  The daily query checks that its file exists before it resolves the zone name, so
  with no daily file a name that does not resolve is answered with
  \<^verbatim>\<open>"No Data"\<close>, not with \<^verbatim>\<open>"Invalid Timezone"\<close>.
\<close>

theorem daily_query_no_data_counterexample:
  "pytz_timezone test_env ''Not/AZone'' = None \<and>
   file_1day no_files = Missing \<and>
   get_last_7days_monitor_data test_env ''Not/AZone'' no_files = Inl (ClientException ''No Data'')"
  by (simp add: test_env_def no_files_def get_last_7days_monitor_data_def
      get_1day_monitor_records_def)

text \<open>
  With no hourly file and an accumulator that holds no sample, the flush of the hourly
  query writes nothing and opening the file raises.
\<close>

lemma hourly_query_empty_accumulator:
  "get_last_24h_monitor_data test_env ''UTC'' (init_monitor, no_files)
     = (Inl FileNotFoundError, (init_monitor, no_files))"
  by (simp add: get_last_24h_monitor_data_def get_1h_monitor_records_def push_to_file_def
      get_and_reset_stats_def init_monitor_def no_files_def read_localised_def)

lemma daily_no_data:
  "file_1day fs = Missing \<Longrightarrow>
     get_1day_monitor_records e tz n fs = Inl (ClientException ''No Data'')"
  by (simp add: get_1day_monitor_records_def)

lemma monthly_no_data:
  "file_1month fs = Missing \<Longrightarrow>
     get_1month_monitor_records n fs = Inl (ClientException ''No Data'')"
  by (simp add: get_1month_monitor_records_def)

lemma daily_invalid_timezone:
  "file_1day fs = Content xs \<Longrightarrow> pytz_timezone e tz = None \<Longrightarrow>
     get_1day_monitor_records e tz n fs = Inl (ClientException (''Invalid Timezone: '' @ tz))"
  by (simp add: get_1day_monitor_records_def read_localised_def)

lemma hourly_invalid_timezone:
  "file_1h (snd st) = Content xs \<Longrightarrow> pytz_timezone e tz = None \<Longrightarrow>
     get_1h_monitor_records e tz n st = (Inl (ClientException (''Invalid Timezone: '' @ tz)), st)"
  by (simp add: get_1h_monitor_records_def read_localised_def)

lemma localise_returns:
  "\<forall>r \<in> set rs. \<exists>d. fromisoformat (rec_datetime r) = Inr d \<Longrightarrow>
     \<exists>out. localise z fmt rs = Inr out \<and> length out = length rs"
  by (induction rs) auto

lemma push_to_file_1day_parses:
  assumes "file_1h fs = Content [r]" and "push_to_file_1day fs = Returned fs'"
  shows "\<exists>d. fromisoformat (rec_datetime r) = Inr d"
  using assms by (auto simp: push_to_file_1day_def split: sum.splits)

lemma push_to_file_Returned:
  assumes "push_to_file e (self, fs) = Returned st'" and "0 < sample_count self"
  shows "\<exists>new self' data fs1.
           get_and_reset_stats e self = (Some new, self') \<and> rec_datetime new = now_iso e \<and>
           hourly_update (load_or_empty (file_1h fs)) new = Inr data \<and>
           push_to_file_1day (fs\<lparr>file_1h := Content (to_write data)\<rparr>) = Returned fs1"
proof -
  obtain new where g: "get_and_reset_stats e self = (Some new, init_monitor)"
    and dt: "rec_datetime new = now_iso e"
    using assms(2) by (simp add: get_and_reset_stats_def)
  from assms(1) g obtain data where d: "hourly_update (load_or_empty (file_1h fs)) new = Inr data"
    by (auto simp: push_to_file_def split: sum.splits)
  from assms(1) g d obtain fs1
    where "push_to_file_1day (fs\<lparr>file_1h := Content (to_write data)\<rparr>) = Returned fs1"
    by (auto simp: push_to_file_def split: outcome.splits)
  with g dt d show ?thesis
    by blast
qed

lemma hourly_query_flushes:
  assumes "file_1h (snd st) = Missing" and "0 < sample_count (fst st)"
    and "push_to_file e st = Returned st'" and "pytz_timezone e tz = Some z"
  shows "\<exists>new recs. fst (get_and_reset_stats e (fst st)) = Some new \<and>
           file_1h (snd st') = Content [new] \<and> rec_datetime new = now_iso e \<and>
           get_1h_monitor_records e tz n st = (Inr recs, st')"
proof -
  obtain self fs where st: "st = (self, fs)"
    by (cases st)
  obtain new self' data fs1 where g: "get_and_reset_stats e self = (Some new, self')"
    and dt: "rec_datetime new = now_iso e"
    and upd: "hourly_update (load_or_empty (file_1h fs)) new = Inr data"
    and day: "push_to_file_1day (fs\<lparr>file_1h := Content (to_write data)\<rparr>) = Returned fs1"
    using push_to_file_Returned [of e self fs st'] assms(2,3) st by auto
  have data: "data = [new]"
    using upd assms(1) st by (simp add: hourly_update_def)
  have tw: "to_write data = [new]"
    by (simp add: data to_write_def max1h_record_length_def)
  have written: "file_1h (snd (state_of (push_to_file e (self, fs)))) = Content [new]"
    using push_to_file_writes_1h [OF g upd] tw by simp
  then have f': "file_1h (snd st') = Content [new]"
    using assms(3) st by simp
  have "\<exists>d. fromisoformat (rec_datetime new) = Inr d"
    by (rule push_to_file_1day_parses [OF _ day]) (simp add: tw)
  then have "\<forall>r \<in> set (slice_from (- n) [new]). \<exists>d. fromisoformat (rec_datetime r) = Inr d"
    by (auto simp: slice_from_def dest: in_set_dropD)
  then obtain out where "localise z strftime_md_Hh (slice_from (- n) [new]) = Inr out"
    using localise_returns by blast
  then have "get_1h_monitor_records e tz n st = (Inr out, st')"
    using assms(1,3,4) f' by (simp add: get_1h_monitor_records_def read_localised_def)
  then show ?thesis
    using f' dt g st by auto
qed

text \<open>
  C3, amended. The daily and the monthly query raise \<^verbatim>\<open>"No Data"\<close> when their
  series file does not exist, the daily one whatever the zone name. When the series
  file holds a series, the daily and the hourly query raise
  \<^verbatim>\<open>"Invalid Timezone: <name>"\<close> for every zone name that does not resolve. For the
  hourly query a missing file triggers a flush; when the accumulator holds a sample and
  the flush returns, the file then holds the one flushed record and, for a zone name
  that resolves, the query returns records. The one record the file holds is the
  record \<^verbatim>\<open>get_and_reset_stats\<close> returned.
\<close>

theorem query_failures:
  "(file_1day fs = Missing \<longrightarrow>
      get_1day_monitor_records e tz n fs = Inl (ClientException ''No Data'')) \<and>
   (file_1month fs = Missing \<longrightarrow>
      get_1month_monitor_records n fs = Inl (ClientException ''No Data'')) \<and>
   (file_1day fs = Content xs \<and> pytz_timezone e tz = None \<longrightarrow>
      get_1day_monitor_records e tz n fs = Inl (ClientException (''Invalid Timezone: '' @ tz))) \<and>
   (file_1h (snd st) = Content xs \<and> pytz_timezone e tz = None \<longrightarrow>
      get_1h_monitor_records e tz n st = (Inl (ClientException (''Invalid Timezone: '' @ tz)), st)) \<and>
   (file_1h (snd st) = Missing \<and> 0 < sample_count (fst st) \<and>
    push_to_file e st = Returned st' \<and> pytz_timezone e tz = Some z \<longrightarrow>
      (\<exists>new recs. fst (get_and_reset_stats e (fst st)) = Some new \<and>
           file_1h (snd st') = Content [new] \<and> rec_datetime new = now_iso e \<and>
           get_1h_monitor_records e tz n st = (Inr recs, st')))"
proof (intro conjI impI)
  show "file_1day fs = Missing \<Longrightarrow>
      get_1day_monitor_records e tz n fs = Inl (ClientException ''No Data'')"
    by (rule daily_no_data)
  show "file_1month fs = Missing \<Longrightarrow>
      get_1month_monitor_records n fs = Inl (ClientException ''No Data'')"
    by (rule monthly_no_data)
  show "file_1day fs = Content xs \<and> pytz_timezone e tz = None \<Longrightarrow>
      get_1day_monitor_records e tz n fs = Inl (ClientException (''Invalid Timezone: '' @ tz))"
    by (simp add: daily_invalid_timezone)
  show "file_1h (snd st) = Content xs \<and> pytz_timezone e tz = None \<Longrightarrow>
      get_1h_monitor_records e tz n st = (Inl (ClientException (''Invalid Timezone: '' @ tz)), st)"
    by (simp add: hourly_invalid_timezone)
  show "file_1h (snd st) = Missing \<and> 0 < sample_count (fst st) \<and>
      push_to_file e st = Returned st' \<and> pytz_timezone e tz = Some z \<Longrightarrow>
      \<exists>new recs. fst (get_and_reset_stats e (fst st)) = Some new \<and>
           file_1h (snd st') = Content [new] \<and> rec_datetime new = now_iso e \<and>
           get_1h_monitor_records e tz n st = (Inr recs, st')"
    using hourly_query_flushes [of st e st' tz z n] by blast
qed

theorem query_failures_witness:
  "file_1day no_files = Missing \<and> file_1month no_files = Missing \<and>
   get_1day_monitor_records test_env ''UTC'' 7 no_files = Inl (ClientException ''No Data'') \<and>
   get_1month_monitor_records 12 no_files = Inl (ClientException ''No Data'') \<and>
   pytz_timezone test_env ''Not/AZone'' = None \<and>
   get_1day_monitor_records test_env ''Not/AZone'' 7 one_day_only
     = Inl (ClientException ''Invalid Timezone: Not/AZone'') \<and>
   get_1h_monitor_records test_env ''Not/AZone'' 24 (init_monitor, flushed_files)
     = (Inl (ClientException ''Invalid Timezone: Not/AZone''), (init_monitor, flushed_files)) \<and>
   0 < sample_count one_sample_monitor \<and>
   push_to_file test_env (one_sample_monitor, no_files) = Returned (init_monitor, flushed_files) \<and>
   get_1h_monitor_records test_env ''UTC'' 24 (one_sample_monitor, no_files)
     = (Inr [flushed_record\<lparr>rec_datetime := ''01-02 10h''\<rparr>], (init_monitor, flushed_files))"
proof -
  have flush: "push_to_file test_env (one_sample_monitor, no_files) = Returned (init_monitor, flushed_files)"
    by (simp add: push_to_file_def flush_one_sample no_files_def flushed_files_def
        hourly_update_def to_write_def max1h_record_length_def rollup_eval flushed_record_def
        merge_eval parse_eval format_eval float_eval numeral_2_eq_2 split del: if_split)
  have answer: "get_1h_monitor_records test_env ''UTC'' 24 (one_sample_monitor, no_files)
     = (Inr [flushed_record\<lparr>rec_datetime := ''01-02 10h''\<rparr>], (init_monitor, flushed_files))"
    using flush
    by (simp add: get_1h_monitor_records_def no_files_def flushed_files_def read_localised_def
        test_env_def slice_from_def flushed_record_def parsed format_eval)
  have utc: "pytz_timezone test_env ''UTC'' = Some (\<lambda>dt. dt)"
    and unknown: "pytz_timezone test_env ''Not/AZone'' = None"
    by (simp_all add: test_env_def)
  show ?thesis
    using query_failures [where fs = no_files and e = test_env and tz = "''UTC''" and n = 24
        and st = "(one_sample_monitor, no_files)" and st' = "(init_monitor, flushed_files)"
        and z = "\<lambda>dt. dt" and xs = "[]"]
      query_failures [where fs = no_files and e = test_env and tz = "''UTC''" and n = 7
        and st = "(one_sample_monitor, no_files)" and st' = "(init_monitor, flushed_files)"
        and z = "\<lambda>dt. dt" and xs = "[]"]
      query_failures [where fs = no_files and e = test_env and tz = "''UTC''" and n = 12
        and st = "(one_sample_monitor, no_files)" and st' = "(init_monitor, flushed_files)"
        and z = "\<lambda>dt. dt" and xs = "[]"]
      query_failures [where fs = one_day_only and e = test_env and tz = "''Not/AZone''" and n = 7
        and st = "(init_monitor, flushed_files)" and st' = "(init_monitor, flushed_files)"
        and z = "\<lambda>dt. dt" and xs = "[make_hourly_record ''2025-01-02'' 10 1 5 20]"]
      query_failures [where fs = no_files and e = test_env and tz = "''Not/AZone''" and n = 24
        and st = "(init_monitor, flushed_files)" and st' = "(init_monitor, flushed_files)"
        and z = "\<lambda>dt. dt" and xs = "[flushed_record]"]
      flush answer utc unknown
    by (simp add: no_files_def one_day_only_def flushed_files_def one_sample_monitor_def)
qed

end
